theory Spec2Isabelle
  imports Main "HOL-Library.Multiset" "HOL-Library.List_Lexorder" "HOL-Library.Sublist"
    "HOL-Library.AList"
begin

section \<open>Python values used by the phrase engine\<close>

text \<open>
  A Python \<^verbatim>\<open>str\<close> is a sequence of Unicode code points and \<^verbatim>\<open>len\<close> counts code
  points, so a string is a list of code points here. Frequencies are Python's unbounded
  integers. A phrase entry is the tuple \<^verbatim>\<open>(text, frequency)\<close> the source passes around.
\<close>

type_synonym codepoint = nat
type_synonym pystr = "codepoint list"
type_synonym phrase = "pystr \<times> int"

text \<open>An ASCII literal as a Python string.\<close>

definition str :: "string \<Rightarrow> pystr" where
  "str s = map of_char s"

text \<open>
  The built-in exceptions that the modelled code can meet. A function that can raise
  returns \<open>py_error + 'a\<close>, with \<open>Inl\<close> for the exception.
\<close>

datatype py_error = IndexError | KeyError | TypeError | ValueError | OSError | UnpicklingError

text \<open>
  \<^verbatim>\<open>str.isspace\<close> for one code point: the whitespace table of CPython
  (\<^verbatim>\<open>\t \n \v \f \r\<close>, U+001C..U+0020, U+0085, U+00A0, U+1680, U+2000..U+200A, U+2028,
  U+2029, U+202F, U+205F, U+3000). \<^verbatim>\<open>str.strip()\<close>, \<^verbatim>\<open>str.split()\<close> and the
  regular expression class \<^verbatim>\<open>\s\<close> all use this table.
\<close>

definition py_isspace :: "codepoint \<Rightarrow> bool" where
  "py_isspace c \<longleftrightarrow>
     (9 \<le> c \<and> c \<le> 13) \<or> (28 \<le> c \<and> c \<le> 32) \<or> c = 133 \<or> c = 160 \<or> c = 5760 \<or>
     (8192 \<le> c \<and> c \<le> 8202) \<or> c = 8232 \<or> c = 8233 \<or> c = 8239 \<or> c = 8287 \<or> c = 12288"

text \<open>
  The case tables and the alphanumeric table of Python are part of the interpreter, not
  of the repository. The model carries them for the two scripts the application is
  written for, Basic Latin (U+0000..U+007F) and the Cyrillic letters U+0400..U+045F,
  where they are exact; every other code point is left unchanged by
  \<open>py_lower\<close> and \<open>py_upper\<close> and is not alphanumeric for \<open>py_isalnum\<close>.
\<close>

definition lower_cp :: "codepoint \<Rightarrow> codepoint" where
  "lower_cp c =
     (if 65 \<le> c \<and> c \<le> 90 then c + 32
      else if 1024 \<le> c \<and> c \<le> 1039 then c + 80
      else if 1040 \<le> c \<and> c \<le> 1071 then c + 32
      else c)"

definition upper_cp :: "codepoint \<Rightarrow> codepoint" where
  "upper_cp c =
     (if 97 \<le> c \<and> c \<le> 122 then c - 32
      else if 1072 \<le> c \<and> c \<le> 1103 then c - 32
      else if 1104 \<le> c \<and> c \<le> 1119 then c - 80
      else c)"

definition py_lower :: "pystr \<Rightarrow> pystr" where
  "py_lower s = map lower_cp s"

definition py_upper :: "pystr \<Rightarrow> pystr" where
  "py_upper s = map upper_cp s"

definition py_isalnum :: "codepoint \<Rightarrow> bool" where
  "py_isalnum c \<longleftrightarrow>
     (48 \<le> c \<and> c \<le> 57) \<or> (65 \<le> c \<and> c \<le> 90) \<or> (97 \<le> c \<and> c \<le> 122) \<or>
     (1024 \<le> c \<and> c \<le> 1119)"

text \<open>\<^verbatim>\<open>s.strip()\<close>: leading and trailing whitespace removed.\<close>

definition py_strip :: "pystr \<Rightarrow> pystr" where
  "py_strip s = rev (dropWhile py_isspace (rev (dropWhile py_isspace s)))"

text \<open>
  \<^verbatim>\<open>s.split()\<close> without arguments: the maximal runs of non-whitespace code points, in
  order; never an empty token. \<open>cur\<close> is the token being read.
\<close>

fun split_from :: "pystr \<Rightarrow> pystr \<Rightarrow> pystr list" where
  "split_from cur [] = (if cur = [] then [] else [cur])"
| "split_from cur (c # cs) =
     (if py_isspace c then (if cur = [] then split_from [] cs else cur # split_from [] cs)
      else split_from (cur @ [c]) cs)"

definition py_split :: "pystr \<Rightarrow> pystr list" where
  "py_split s = split_from [] s"

text \<open>
  Indexing a sequence with a Python integer: a negative index counts from the end, an
  index out of range raises \<^verbatim>\<open>IndexError\<close>.
\<close>

definition py_getitem :: "'a list \<Rightarrow> int \<Rightarrow> py_error + 'a" where
  "py_getitem xs i =
     (let k = (if i < 0 then i + int (length xs) else i)
      in if k < 0 \<or> int (length xs) \<le> k then Inl IndexError else Inr (xs ! nat k))"

section \<open>Folder\<close>

text \<open>
  \<^verbatim>\<open>class Folder\<close> (main_merged.py, main_merged_qt5.py): a name and the list of its
  \<^verbatim>\<open>(phrase, frequency)\<close> tuples. The attributes \<^verbatim>\<open>name\<close> and \<^verbatim>\<open>phrases\<close> carry the
  prefix \<open>folder_\<close>, since several classes of the source have attributes of these names.
\<close>

record Folder =
  folder_name :: pystr
  folder_phrases :: "phrase list"

definition Folder_init :: "pystr \<Rightarrow> Folder" where
  "Folder_init n = \<lparr>folder_name = n, folder_phrases = []\<rparr>"

text \<open>
  \<^verbatim>\<open>add_phrase\<close>: append the tuple unless an equal tuple is in the list already.
\<close>

definition add_phrase :: "Folder \<Rightarrow> pystr \<Rightarrow> int \<Rightarrow> Folder" where
  "add_phrase F phrase frequency =
     (if (phrase, frequency) \<notin> set (folder_phrases F)
      then F\<lparr>folder_phrases := folder_phrases F @ [(phrase, frequency)]\<rparr>
      else F)"

text \<open>\<^verbatim>\<open>remove_phrase\<close>: keep the tuples whose text differs from \<open>phrase\<close>.\<close>

definition remove_phrase :: "Folder \<Rightarrow> pystr \<Rightarrow> Folder" where
  "remove_phrase F phrase = F\<lparr>folder_phrases := [(p, f) \<leftarrow> folder_phrases F. p \<noteq> phrase]\<rparr>"

definition clear :: "Folder \<Rightarrow> Folder" where
  "clear F = F\<lparr>folder_phrases := []\<rparr>"

section \<open>HistoryManager\<close>

text \<open>
  \<^verbatim>\<open>collections.deque(maxlen=n)\<close> as a list, leftmost element first.
  \<^verbatim>\<open>append\<close> adds on the right and, when the deque has grown beyond \<open>maxlen\<close>, drops
  the leftmost element; \<^verbatim>\<open>pop\<close> removes the rightmost element and raises
  \<^verbatim>\<open>IndexError\<close> on an empty deque.
\<close>

definition deque_append :: "nat \<Rightarrow> 'a list \<Rightarrow> 'a \<Rightarrow> 'a list" where
  "deque_append maxlen d x = (let d' = d @ [x] in if maxlen < length d' then tl d' else d')"

definition deque_pop :: "'a list \<Rightarrow> py_error + 'a list" where
  "deque_pop d = (if d = [] then Inl IndexError else Inr (butlast d))"

text \<open>
  \<^verbatim>\<open>class HistoryManager\<close>: the deque of snapshots with its capacity, the cursor and the
  initial state. \<^verbatim>\<open>copy.deepcopy\<close> of a snapshot is the snapshot itself: values are
  immutable here, so no snapshot can alias live data.
\<close>

record HistoryManager =
  history :: "phrase list list"
  max_history :: nat
  current_index :: int
  initial_state :: "phrase list option"

definition HistoryManager_init :: "nat \<Rightarrow> HistoryManager" where
  "HistoryManager_init n =
     \<lparr>history = [], max_history = n, current_index = - 1, initial_state = None\<rparr>"

text \<open>The default \<^verbatim>\<open>max_history=50\<close>, which every construction in the source uses.\<close>

definition HistoryManager_default :: HistoryManager where
  "HistoryManager_default = HistoryManager_init 50"

definition set_initial_state :: "HistoryManager \<Rightarrow> phrase list \<Rightarrow> HistoryManager" where
  "set_initial_state h state =
     h\<lparr>initial_state := Some state,
       history := deque_append (max_history h) [] state,
       current_index := 0\<rparr>"

text \<open>
  The loop \<^verbatim>\<open>while len(self.history) > self.current_index + 1: self.history.pop()\<close> of
  \<^verbatim>\<open>add_state\<close>.
\<close>

function pop_after :: "phrase list list \<Rightarrow> int \<Rightarrow> py_error + phrase list list" where
  "pop_after d ci =
     (if int (length d) > ci + 1
      then (case deque_pop d of Inl e \<Rightarrow> Inl e | Inr d' \<Rightarrow> pop_after d' ci)
      else Inr d)"
  by pat_completeness auto
termination
  by (relation "measure (\<lambda>(d, ci). length d)") (auto simp: deque_pop_def split: if_splits)

declare pop_after.simps [simp del]

definition add_state :: "HistoryManager \<Rightarrow> phrase list \<Rightarrow> py_error + HistoryManager" where
  "add_state h state =
     (case pop_after (history h) (current_index h) of
        Inl e \<Rightarrow> Inl e
      | Inr d \<Rightarrow>
          (let d' = deque_append (max_history h) d state
           in Inr (h\<lparr>history := d', current_index := int (length d') - 1\<rparr>)))"

text \<open>
  \<^verbatim>\<open>undo\<close> and \<^verbatim>\<open>redo\<close> return the snapshot (\<^verbatim>\<open>None\<close> when the cursor cannot move)
  together with the manager after the call.
\<close>

definition undo :: "HistoryManager \<Rightarrow> py_error + (phrase list option \<times> HistoryManager)" where
  "undo h =
     (if current_index h > 0
      then (let h' = h\<lparr>current_index := current_index h - 1\<rparr>
            in case py_getitem (history h') (current_index h') of
                 Inl e \<Rightarrow> Inl e
               | Inr s \<Rightarrow> Inr (Some s, h'))
      else Inr (None, h))"

definition redo :: "HistoryManager \<Rightarrow> py_error + (phrase list option \<times> HistoryManager)" where
  "redo h =
     (if current_index h < int (length (history h)) - 1
      then (let h' = h\<lparr>current_index := current_index h + 1\<rparr>
            in case py_getitem (history h') (current_index h') of
                 Inl e \<Rightarrow> Inl e
               | Inr s \<Rightarrow> Inr (Some s, h'))
      else Inr (None, h))"

definition can_undo :: "HistoryManager \<Rightarrow> bool" where
  "can_undo h \<longleftrightarrow> current_index h > 0"

definition can_redo :: "HistoryManager \<Rightarrow> bool" where
  "can_redo h \<longleftrightarrow> current_index h < int (length (history h)) - 1"

section \<open>PhraseProcessor\<close>

text \<open>
  The static methods of \<^verbatim>\<open>class PhraseProcessor\<close>. main.py, main_improved.py and
  main_merged.py have the same text for all of them; main_merged_qt5.py differs in
  \<^verbatim>\<open>transliterate_phrases\<close> and \<^verbatim>\<open>filter_by_stop_words\<close>, which are modelled a second
  time under the suffix \<open>_qt5\<close>.
\<close>

subsection \<open>remove_duplicates\<close>

text \<open>
  The loop of \<^verbatim>\<open>remove_duplicates\<close> with its two variables \<^verbatim>\<open>seen\<close> and
  \<^verbatim>\<open>result\<close>; the third argument is the rest of \<^verbatim>\<open>phrases\<close>.
\<close>

fun remove_duplicates_loop :: "pystr set \<Rightarrow> phrase list \<Rightarrow> phrase list \<Rightarrow> phrase list" where
  "remove_duplicates_loop seen result [] = result"
| "remove_duplicates_loop seen result ((phrase, freq) # rest) =
     (let phrase_lower = py_strip (py_lower phrase)
      in if phrase_lower \<notin> seen
         then remove_duplicates_loop (insert phrase_lower seen)
                (result @ [(py_strip phrase, freq)]) rest
         else remove_duplicates_loop seen result rest)"

definition remove_duplicates :: "phrase list \<Rightarrow> phrase list" where
  "remove_duplicates phrases = remove_duplicates_loop {} [] phrases"

subsection \<open>Sorting\<close>

text \<open>
  \<^verbatim>\<open>sorted(xs, key=k, reverse=r)\<close>: a stable sort by the key; with \<^verbatim>\<open>reverse=True\<close>
  Python reverses the list, sorts it stably and reverses the result, so that entries with
  equal keys keep their input order in both directions. Strings compare
  lexicographically by code point, which is the order of \<open>List_Lexorder\<close>.
\<close>

definition py_sorted :: "('a \<Rightarrow> 'k::linorder) \<Rightarrow> bool \<Rightarrow> 'a list \<Rightarrow> 'a list" where
  "py_sorted key reverse xs = (if reverse then rev (sort_key key (rev xs)) else sort_key key xs)"

definition sort_phrases_alphabetically :: "phrase list \<Rightarrow> bool \<Rightarrow> phrase list" where
  "sort_phrases_alphabetically phrases reverse = py_sorted (\<lambda>x. py_lower (fst x)) reverse phrases"

definition sort_phrases_by_frequency :: "phrase list \<Rightarrow> bool \<Rightarrow> phrase list" where
  "sort_phrases_by_frequency phrases reverse = py_sorted (\<lambda>x. snd x) reverse phrases"

subsection \<open>transliterate_phrases\<close>

text \<open>
  \<^verbatim>\<open>re.search('[\<dots>]', phrase)\<close> with the class of the source, the two ranges U+0430..U+044F
  and U+0410..U+042F (the Russian letters without U+0451 and U+0401).
\<close>

definition has_cyrillic :: "pystr \<Rightarrow> bool" where
  "has_cyrillic phrase =
     list_ex (\<lambda>c. (1072 \<le> c \<and> c \<le> 1103) \<or> (1040 \<le> c \<and> c \<le> 1071)) phrase"

text \<open>
  \<^verbatim>\<open>translit\<close> comes from the package \<^verbatim>\<open>transliterate\<close>, which is not part of the
  repository: it is a parameter, \<open>translit phrase reversed\<close> standing for
  \<^verbatim>\<open>translit(phrase, 'ru', reversed=reversed)\<close>, with \<open>Inl\<close> when the call raises.
  The bare \<^verbatim>\<open>except:\<close> of the loop body catches every exception and appends the
  unchanged entry.
\<close>

definition transliterate_entry ::
  "(pystr \<Rightarrow> bool \<Rightarrow> 'e + pystr) \<Rightarrow> bool \<Rightarrow> phrase \<Rightarrow> phrase" where
  "transliterate_entry translit reverse entry =
     (case entry of (phrase, freq) \<Rightarrow>
        if reverse
        then (if \<not> has_cyrillic phrase
              then (case translit phrase False of Inr t \<Rightarrow> (t, freq) | Inl e \<Rightarrow> (phrase, freq))
              else (phrase, freq))
        else (if has_cyrillic phrase
              then (case translit phrase True of Inr t \<Rightarrow> (t, freq) | Inl e \<Rightarrow> (phrase, freq))
              else (phrase, freq)))"

definition transliterate_phrases ::
  "(pystr \<Rightarrow> bool \<Rightarrow> 'e + pystr) \<Rightarrow> phrase list \<Rightarrow> bool \<Rightarrow> phrase list" where
  "transliterate_phrases translit phrases reverse =
     map (transliterate_entry translit reverse) phrases"

text \<open>
  main_merged_qt5.py: no test of the script; \<^verbatim>\<open>reverse\<close> is passed on as
  \<^verbatim>\<open>reversed\<close>.
\<close>

definition transliterate_entry_qt5 ::
  "(pystr \<Rightarrow> bool \<Rightarrow> 'e + pystr) \<Rightarrow> bool \<Rightarrow> phrase \<Rightarrow> phrase" where
  "transliterate_entry_qt5 translit reverse entry =
     (case entry of (phrase, freq) \<Rightarrow>
        if reverse
        then (case translit phrase True of Inr t \<Rightarrow> (t, freq) | Inl e \<Rightarrow> (phrase, freq))
        else (case translit phrase False of Inr t \<Rightarrow> (t, freq) | Inl e \<Rightarrow> (phrase, freq)))"

definition transliterate_phrases_qt5 ::
  "(pystr \<Rightarrow> bool \<Rightarrow> 'e + pystr) \<Rightarrow> phrase list \<Rightarrow> bool \<Rightarrow> phrase list" where
  "transliterate_phrases_qt5 translit phrases reverse =
     map (transliterate_entry_qt5 translit reverse) phrases"

subsection \<open>filter_by_stop_words\<close>

text \<open>
  main.py: an entry is kept when the set of the whitespace tokens of its lowercased text
  has no element in \<^verbatim>\<open>stop_words\<close>.
\<close>

definition filter_by_stop_words :: "phrase list \<Rightarrow> pystr set \<Rightarrow> phrase list" where
  "filter_by_stop_words phrases stop_words =
     (if stop_words = {} then phrases
      else [(phrase, freq) \<leftarrow> phrases. set (py_split (py_lower phrase)) \<inter> stop_words = {}])"

text \<open>
  main_merged_qt5.py: an entry is kept when no lowercased stop word is a substring of its
  lowercased text (\<^verbatim>\<open>stop.lower() in phrase_lower\<close>).
\<close>

definition filter_by_stop_words_qt5 :: "phrase list \<Rightarrow> pystr set \<Rightarrow> phrase list" where
  "filter_by_stop_words_qt5 phrases stop_words =
     (if stop_words = {} then phrases
      else [(phrase, freq) \<leftarrow> phrases.
              \<not> (\<exists>stop \<in> stop_words. sublist (py_lower stop) (py_lower phrase))])"

subsection \<open>remove_special_chars\<close>

text \<open>
  \<^verbatim>\<open>re.sub(r'[^\w\s]', ' ', phrase)\<close>: the class \<^verbatim>\<open>\w\<close> of a \<^verbatim>\<open>str\<close> pattern is the
  alphanumeric code points and the underscore (U+005F), \<^verbatim>\<open>\s\<close> is the whitespace; every
  other code point becomes a space (U+0020).
\<close>

definition sub_special :: "pystr \<Rightarrow> pystr" where
  "sub_special phrase =
     map (\<lambda>c. if \<not> (py_isalnum c \<or> c = 95 \<or> py_isspace c) then 32 else c) phrase"

text \<open>\<^verbatim>\<open>re.sub(r'\s+', ' ', s)\<close>: every maximal run of whitespace becomes one space.\<close>

function sub_spaces :: "pystr \<Rightarrow> pystr" where
  "sub_spaces [] = []"
| "sub_spaces (c # cs) =
     (if py_isspace c then 32 # sub_spaces (dropWhile py_isspace cs) else c # sub_spaces cs)"
  by pat_completeness auto
termination
  by (relation "measure length") (auto simp: less_Suc_eq_le length_dropWhile_le)

fun remove_special_chars :: "phrase list \<Rightarrow> phrase list" where
  "remove_special_chars [] = []"
| "remove_special_chars ((phrase, freq) # rest) =
     (let cleaned = py_strip (sub_spaces (sub_special phrase))
      in if cleaned \<noteq> [] then (cleaned, freq) # remove_special_chars rest
         else remove_special_chars rest)"

subsection \<open>convert_case and remove_long_phrases\<close>

definition convert_case :: "phrase list \<Rightarrow> bool \<Rightarrow> phrase list" where
  "convert_case phrases to_upper =
     map (\<lambda>(phrase, freq). if to_upper then (py_upper phrase, freq) else (py_lower phrase, freq))
       phrases"

definition remove_long_phrases :: "phrase list \<Rightarrow> int \<Rightarrow> phrase list" where
  "remove_long_phrases phrases max_words =
     [(phrase, freq) \<leftarrow> phrases. int (length (py_split phrase)) \<le> max_words]"

subsection \<open>group_phrases\<close>










section \<open>The main window\<close>

text \<open>
  The part of main_merged_qt5.py that keeps the workspace: the phrase lists, the global
  stop words and folders, the tabs with their tables, and the widgets that hold the stop
  words and folders of the current list.

  A Python \<^verbatim>\<open>dict\<close> is an association list in insertion order; \<open>map_of\<close> is the
  lookup, \<open>AList.update\<close> the assignment \<^verbatim>\<open>d[k] = v\<close>.

  Objects are values here. \<^verbatim>\<open>copy.deepcopy\<close> and \<^verbatim>\<open>.copy()\<close> are the identity, and an
  assignment such as \<^verbatim>\<open>tab.table.history = pl.history\<close>, which makes two attributes
  refer to one object in Python, copies the value: a later write through one of the two
  references is not seen through the other in the model. The properties stated for the
  window functions below concern attributes that are written directly.

  The Qt classes are not part of the repository. \<^verbatim>\<open>QTabWidget\<close> is modelled as the list
  of its pages and the current index (\<open>- 1\<close> when there is no page), with the behaviour
  of the Qt documentation. Qt's own delivery of \<^verbatim>\<open>currentChanged\<close> while pages are
  removed and added is not modelled; the signals that the source emits itself
  (\<^verbatim>\<open>folders_changed.emit()\<close>) run their slots at once and are part of the model.
  Repainting (\<^verbatim>\<open>update_tree\<close>, the table rows, labels, the status bar) changes no
  attribute of the workspace and is left out.
\<close>

type_synonym ('k, 'v) dict = "('k \<times> 'v) list"

text \<open>
  \<^verbatim>\<open>class PhraseList\<close>; the attributes carry the prefix \<open>pl_\<close>.
\<close>

record PhraseList =
  pl_name :: pystr
  pl_phrases :: "phrase list"
  pl_stop_words :: "pystr set"
  pl_folders :: "(pystr, Folder) dict"
  pl_history :: HistoryManager

text \<open>
  \<^verbatim>\<open>class MainPhraseTable\<close>: the attributes \<^verbatim>\<open>history\<close>, \<^verbatim>\<open>stop_words\<close>,
  \<^verbatim>\<open>original_data\<close>, \<^verbatim>\<open>current_data\<close>, \<^verbatim>\<open>folders\<close> and \<^verbatim>\<open>global_folders\<close>.
  \<^verbatim>\<open>history\<close> is never \<^verbatim>\<open>None\<close> in the source, so the tests
  \<^verbatim>\<open>if self.history is not None\<close> always succeed.
\<close>

record MainPhraseTable =
  table_history :: HistoryManager
  table_stop_words :: "pystr set"
  original_data :: "phrase list"
  current_data :: "phrase list"
  table_folders :: "(pystr, Folder) dict"
  table_global_folders :: "(pystr, Folder) dict"

definition MainPhraseTable_init :: MainPhraseTable where
  "MainPhraseTable_init =
     \<lparr>table_history = HistoryManager_default, table_stop_words = {}, original_data = [],
      current_data = [], table_folders = [], table_global_folders = []\<rparr>"

text \<open>\<^verbatim>\<open>MainPhraseTable.save_state\<close>.\<close>

definition save_state :: "MainPhraseTable \<Rightarrow> py_error + MainPhraseTable" where
  "save_state t =
     (case add_state (table_history t) (current_data t) of
        Inl e \<Rightarrow> Inl e
      | Inr h \<Rightarrow> Inr (t\<lparr>table_history := h\<rparr>))"

text \<open>
  \<^verbatim>\<open>MainPhraseTable.update_table(data, save_history=False)\<close>: the assignment
  \<^verbatim>\<open>self.current_data = data\<close>; the rest fills the rows.
\<close>

definition update_table :: "MainPhraseTable \<Rightarrow> phrase list \<Rightarrow> MainPhraseTable" where
  "update_table t data = t\<lparr>current_data := data\<rparr>"

text \<open>\<^verbatim>\<open>MainPhraseTable.load_data\<close>.\<close>

definition load_data :: "MainPhraseTable \<Rightarrow> phrase list \<Rightarrow> MainPhraseTable" where
  "load_data t data =
     (let t1 = t\<lparr>original_data := data, current_data := data\<rparr>;
          t2 = t1\<lparr>table_history := set_initial_state (table_history t1) (current_data t1)\<rparr>
      in update_table t2 (current_data t2))"

text \<open>\<^verbatim>\<open>class PhraseTab\<close>: the name and the table of the page.\<close>

record PhraseTab =
  tab_name :: pystr
  table :: MainPhraseTable

definition PhraseTab_init :: PhraseTab where
  "PhraseTab_init = \<lparr>tab_name = [], table = MainPhraseTable_init\<rparr>"

text \<open>
  \<^verbatim>\<open>QTabWidget\<close>; \<open>tab_count\<close> is its \<^verbatim>\<open>count()\<close>. \<^verbatim>\<open>widget(i)\<close> is \<^verbatim>\<open>None\<close> out of range; \<^verbatim>\<open>addTab\<close> appends a page,
  which becomes the current one when it is the first; \<^verbatim>\<open>removeTab(0)\<close> repeated until
  \<^verbatim>\<open>count()\<close> is zero leaves no page; \<^verbatim>\<open>setCurrentIndex\<close> ignores an index out of
  range.
\<close>

record QTabWidget =
  tabs :: "PhraseTab list"
  currentIndex :: int

definition tab_count :: "QTabWidget \<Rightarrow> int" where
  "tab_count q = int (length (tabs q))"

definition widget :: "QTabWidget \<Rightarrow> int \<Rightarrow> PhraseTab option" where
  "widget q i = (if 0 \<le> i \<and> i < tab_count q then Some (tabs q ! nat i) else None)"

definition addTab :: "QTabWidget \<Rightarrow> PhraseTab \<Rightarrow> QTabWidget" where
  "addTab q tab =
     q\<lparr>tabs := tabs q @ [tab], currentIndex := (if tabs q = [] then 0 else currentIndex q)\<rparr>"

definition remove_all_tabs :: "QTabWidget \<Rightarrow> QTabWidget" where
  "remove_all_tabs q = q\<lparr>tabs := [], currentIndex := - 1\<rparr>"

definition setCurrentIndex :: "QTabWidget \<Rightarrow> int \<Rightarrow> QTabWidget" where
  "setCurrentIndex q i = (if 0 \<le> i \<and> i < tab_count q then q\<lparr>currentIndex := i\<rparr> else q)"

text \<open>
  \<^verbatim>\<open>class MainWindow\<close>. \<^verbatim>\<open>stop_words_widget\<close> and \<^verbatim>\<open>general_stop\<close> stand for the
  attribute \<^verbatim>\<open>stop_words\<close> of the two \<^verbatim>\<open>StopWordsWidget\<close>s, \<^verbatim>\<open>folders_widget\<close> and
  \<^verbatim>\<open>general_folders\<close> for the attribute \<^verbatim>\<open>folders\<close> of the two \<^verbatim>\<open>FoldersWidget\<close>s.
\<close>

record MainWindow =
  phrase_lists :: "(pystr, PhraseList) dict"
  global_stop_words :: "pystr set"
  global_folders :: "(pystr, Folder) dict"
  prev_phrase_tab_index :: int
  current_session_path :: "pystr option"
  stop_words_widget :: "pystr set"
  folders_widget :: "(pystr, Folder) dict"
  general_stop :: "pystr set"
  general_folders :: "(pystr, Folder) dict"
  phrase_tabs :: QTabWidget

text \<open>\<^verbatim>\<open>MainWindow.__init__\<close>: the window before any list is opened.\<close>

definition MainWindow_init :: MainWindow where
  "MainWindow_init =
     \<lparr>phrase_lists = [], global_stop_words = {}, global_folders = [],
      prev_phrase_tab_index = - 1, current_session_path = None, stop_words_widget = {},
      folders_widget = [], general_stop = {}, general_folders = [],
      phrase_tabs = \<lparr>tabs = [], currentIndex = - 1\<rparr>\<rparr>"

text \<open>\<^verbatim>\<open>get_current_tab\<close>: \<^verbatim>\<open>self.phrase_tabs.currentWidget()\<close>.\<close>

definition get_current_tab :: "MainWindow \<Rightarrow> PhraseTab option" where
  "get_current_tab w = widget (phrase_tabs w) (currentIndex (phrase_tabs w))"

text \<open>
  The current page replaced by \<open>tab\<close>: how the model writes to an attribute of the
  current tab or of its table.
\<close>

definition set_current_tab :: "MainWindow \<Rightarrow> PhraseTab \<Rightarrow> MainWindow" where
  "set_current_tab w tab =
     w\<lparr>phrase_tabs := (phrase_tabs w)
          \<lparr>tabs := (tabs (phrase_tabs w))[nat (currentIndex (phrase_tabs w)) := tab]\<rparr>\<rparr>"

text \<open>
  \<^verbatim>\<open>get_current_phrase_list\<close>: \<^verbatim>\<open>None\<close> without a current tab, otherwise
  \<^verbatim>\<open>self.phrase_lists[tab.name]\<close>, which raises \<^verbatim>\<open>KeyError\<close> for a missing name.
  \<open>set_phrase_list\<close> puts a changed list object back under its key, which for the
  list returned by \<^verbatim>\<open>get_current_phrase_list\<close> is \<open>current_key\<close>, the name of the current
  tab.
\<close>

definition get_current_phrase_list :: "MainWindow \<Rightarrow> py_error + PhraseList option" where
  "get_current_phrase_list w =
     (case get_current_tab w of
        None \<Rightarrow> Inr None
      | Some tab \<Rightarrow>
          (case map_of (phrase_lists w) (tab_name tab) of
             None \<Rightarrow> Inl KeyError
           | Some pl \<Rightarrow> Inr (Some pl)))"

definition current_key :: "MainWindow \<Rightarrow> pystr" where
  "current_key w = (case get_current_tab w of None \<Rightarrow> [] | Some tab \<Rightarrow> tab_name tab)"

definition set_phrase_list :: "MainWindow \<Rightarrow> pystr \<Rightarrow> PhraseList \<Rightarrow> MainWindow" where
  "set_phrase_list w key pl = w\<lparr>phrase_lists := AList.update key pl (phrase_lists w)\<rparr>"

text \<open>
  \<^verbatim>\<open>FoldersWidget.add_phrases_to_folder\<close>, on the attribute \<^verbatim>\<open>folders\<close> of the widget: an
  item whose folder name is not a key is skipped.
\<close>

fun add_phrases_to_folder ::
  "(pystr, Folder) dict \<Rightarrow> (pystr \<times> pystr \<times> int) list \<Rightarrow> (pystr, Folder) dict" where
  "add_phrases_to_folder folders [] = folders"
| "add_phrases_to_folder folders ((fname, phrase, freq) # rest) =
     (case map_of folders fname of
        Some F \<Rightarrow> add_phrases_to_folder (AList.update fname (add_phrase F phrase freq) folders) rest
      | None \<Rightarrow> add_phrases_to_folder folders rest)"

text \<open>
  The slots of \<^verbatim>\<open>folders_changed\<close>: \<^verbatim>\<open>update_current_table_folders\<close> for the folders
  of the list, \<^verbatim>\<open>update_all_tables_global_folders\<close> for the global ones.
\<close>

definition update_current_table_folders :: "MainWindow \<Rightarrow> MainWindow" where
  "update_current_table_folders w =
     (case get_current_tab w of
        None \<Rightarrow> w
      | Some tab \<Rightarrow>
          set_current_tab w (tab\<lparr>table := (table tab)\<lparr>table_folders := folders_widget w\<rparr>\<rparr>))"

definition update_all_tables_global_folders :: "MainWindow \<Rightarrow> MainWindow" where
  "update_all_tables_global_folders w =
     (let w1 = w\<lparr>global_folders := general_folders w\<rparr>
      in w1\<lparr>phrase_tabs := (phrase_tabs w1)
            \<lparr>tabs := map (\<lambda>tab. tab\<lparr>table := (table tab)
                                \<lparr>table_global_folders := global_folders w1\<rparr>\<rparr>)
                        (tabs (phrase_tabs w1))\<rparr>\<rparr>)"

text \<open>
  \<^verbatim>\<open>sync_current_tab\<close>: the list of the current tab takes its stop words and folders
  from the two widgets and its phrases and history from the table.
\<close>

definition sync_current_tab :: "MainWindow \<Rightarrow> MainWindow" where
  "sync_current_tab w =
     (case get_current_tab w of
        None \<Rightarrow> w
      | Some tab \<Rightarrow>
          (case map_of (phrase_lists w) (tab_name tab) of
             None \<Rightarrow> w
           | Some current_list \<Rightarrow>
               w\<lparr>phrase_lists :=
                   AList.update (tab_name tab)
                     (current_list\<lparr>pl_stop_words := stop_words_widget w,
                                   pl_folders := folders_widget w,
                                   pl_phrases := current_data (table tab),
                                   pl_history := table_history (table tab)\<rparr>)
                     (phrase_lists w)\<rparr>))"

text \<open>
  \<^verbatim>\<open>update_grouping_widget\<close> and \<^verbatim>\<open>update_global_grouping\<close> call
  \<^verbatim>\<open>sync_current_tab\<close> before they recompute the groups for display; the first one reads
  \<^verbatim>\<open>self.phrase_lists[current_tab.name]\<close> without a test. A function of the window that
  can raise after it has written returns the exception, if any, and the window at that
  point.
\<close>

definition update_grouping_widget :: "MainWindow \<Rightarrow> py_error option \<times> MainWindow" where
  "update_grouping_widget w =
     (let w1 = sync_current_tab w
      in case get_current_tab w1 of
           None \<Rightarrow> (None, w1)
         | Some tab \<Rightarrow>
             (case map_of (phrase_lists w1) (tab_name tab) of
                None \<Rightarrow> (Some KeyError, w1)
              | Some current_list \<Rightarrow> (None, w1)))"

definition update_global_grouping :: "MainWindow \<Rightarrow> MainWindow" where
  "update_global_grouping w = sync_current_tab w"

subsection \<open>on_phrases_to_folder\<close>

text \<open>
  The slot of the table's signal \<^verbatim>\<open>phrases_to_folder\<close>. It has no \<^verbatim>\<open>try\<close>: an
  exception ends it, and the result is then the exception. The first definition is the
  block \<^verbatim>\<open>if is_global: \<dots> else: \<dots>\<close> that adds the phrases to the folder, the second
  the block \<^verbatim>\<open>if is_move:\<close> that removes them from the current list.
\<close>

definition to_folder_add ::
  "MainWindow \<Rightarrow> (pystr \<times> pystr \<times> int) list \<Rightarrow> bool \<Rightarrow> py_error + MainWindow" where
  "to_folder_add w data is_global =
     (if is_global
      then (let w1 = w\<lparr>general_folders := add_phrases_to_folder (general_folders w) data\<rparr>;
                w2 = update_all_tables_global_folders w1
            in Inr (w2\<lparr>global_folders := general_folders w2\<rparr>))
      else (let w1 = w\<lparr>folders_widget := add_phrases_to_folder (folders_widget w) data\<rparr>;
                w2 = update_current_table_folders w1
            in case get_current_phrase_list w2 of
                 Inl e \<Rightarrow> Inl e
               | Inr None \<Rightarrow> Inr w2
               | Inr (Some current_list) \<Rightarrow>
                   Inr (set_phrase_list w2 (current_key w2)
                          (current_list\<lparr>pl_folders := folders_widget w2\<rparr>))))"

definition to_folder_move :: "MainWindow \<Rightarrow> phrase list \<Rightarrow> py_error + MainWindow" where
  "to_folder_move w phrases =
     (case get_current_tab w of
        None \<Rightarrow> Inr w
      | Some tab \<Rightarrow>
          (case save_state (table tab) of
             Inl e \<Rightarrow> Inl e
           | Inr t1 \<Rightarrow>
               (let phrases_set = (\<lambda>(p, f). py_strip (py_lower p)) ` set phrases;
                    t2 = t1\<lparr>current_data :=
                             [(p, f) \<leftarrow> current_data t1. py_strip (py_lower p) \<notin> phrases_set]\<rparr>;
                    t3 = update_table t2 (current_data t2);
                    w1 = set_current_tab w (tab\<lparr>table := t3\<rparr>)
                in case get_current_phrase_list w1 of
                     Inl e \<Rightarrow> Inl e
                   | Inr current_list \<Rightarrow>
                       (let w2 = (case current_list of
                                    None \<Rightarrow> w1
                                  | Some cl \<Rightarrow>
                                      set_phrase_list w1 (current_key w1)
                                        (cl\<lparr>pl_phrases := current_data t3\<rparr>))
                        in case update_grouping_widget w2 of
                             (Some e, w3) \<Rightarrow> Inl e
                           | (None, w3) \<Rightarrow> Inr (update_global_grouping w3)))))"

definition on_phrases_to_folder ::
  "MainWindow \<Rightarrow> pystr \<Rightarrow> phrase list \<Rightarrow> bool \<Rightarrow> bool \<Rightarrow> py_error + MainWindow" where
  "on_phrases_to_folder w fname phrases is_global is_move =
     (let data = map (\<lambda>(p, f). (fname, p, f)) phrases
      in case to_folder_add w data is_global of
           Inl e \<Rightarrow> Inl e
         | Inr w1 \<Rightarrow> if is_move then to_folder_move w1 phrases else Inr w1)"

subsection \<open>on_phrase_tab_changed\<close>

text \<open>
  The slot of \<^verbatim>\<open>currentChanged\<close>, which \<^verbatim>\<open>load_session\<close> also calls itself. The list of
  the previous tab takes over what the widgets and that tab's table hold, then the
  widgets and the table of the tab at \<open>index\<close> are loaded from its list. Both lookups
  \<^verbatim>\<open>self.phrase_lists[\<dots>]\<close> raise \<^verbatim>\<open>KeyError\<close> for a missing name.
\<close>

definition store_previous_tab :: "MainWindow \<Rightarrow> py_error + MainWindow" where
  "store_previous_tab w =
     (if prev_phrase_tab_index w \<ge> 0
      then (case widget (phrase_tabs w) (prev_phrase_tab_index w) of
              None \<Rightarrow> Inr w
            | Some prev_tab \<Rightarrow>
                (case map_of (phrase_lists w) (tab_name prev_tab) of
                   None \<Rightarrow> Inl KeyError
                 | Some prev_list \<Rightarrow>
                     Inr (set_phrase_list w (tab_name prev_tab)
                            (prev_list\<lparr>pl_stop_words := stop_words_widget w,
                                        pl_folders := folders_widget w,
                                        pl_phrases := current_data (table prev_tab),
                                        pl_history := table_history (table prev_tab)\<rparr>))))
      else Inr w)"

definition on_phrase_tab_changed :: "MainWindow \<Rightarrow> int \<Rightarrow> py_error option \<times> MainWindow" where
  "on_phrase_tab_changed w index =
     (case store_previous_tab w of
        Inl e \<Rightarrow> (Some e, w)
      | Inr w1 \<Rightarrow>
          (let w2 = w1\<lparr>prev_phrase_tab_index := index\<rparr>
           in case widget (phrase_tabs w2) index of
                None \<Rightarrow> (None, w2)
              | Some current_tab \<Rightarrow>
                  (case map_of (phrase_lists w2) (tab_name current_tab) of
                     None \<Rightarrow> (Some KeyError, w2)
                   | Some current_list \<Rightarrow>
                       (let w3 = w2\<lparr>stop_words_widget := pl_stop_words current_list,
                                     folders_widget := pl_folders current_list\<rparr>;
                            t1 = load_data (table current_tab) (pl_phrases current_list);
                            t2 = t1\<lparr>table_history := pl_history current_list,
                                     table_stop_words :=
                                       pl_stop_words current_list \<union> global_stop_words w3,
                                     table_folders := pl_folders current_list,
                                     table_global_folders := global_folders w3\<rparr>;
                            w4 = w3\<lparr>phrase_tabs := (phrase_tabs w3)
                                   \<lparr>tabs := (tabs (phrase_tabs w3))
                                              [nat index := current_tab\<lparr>table := t2\<rparr>]\<rparr>\<rparr>
                        in case update_grouping_widget w4 of
                             (Some e, w5) \<Rightarrow> (Some e, w5)
                           | (None, w5) \<Rightarrow> (None, update_global_grouping w5)))))"

subsection \<open>load_session\<close>

text \<open>
  What \<^verbatim>\<open>pickle.load\<close> returns is a Python object of any shape. The model distinguishes
  a sequence of four items whose first three have the types that the window keeps in
  \<^verbatim>\<open>phrase_lists\<close>, \<^verbatim>\<open>global_stop_words\<close> and \<^verbatim>\<open>global_folders\<close>, the fourth being
  an integer, \<^verbatim>\<open>None\<close> or a string; a sequence of another length, on which the
  unpacking assignment raises \<^verbatim>\<open>ValueError\<close>; and an object that is not iterable, on
  which it raises \<^verbatim>\<open>TypeError\<close>. Unpacking takes all four items before the first target
  is assigned, so nothing is assigned when it raises.
\<close>

datatype pyobj = PyInt int | PyNone | PyStr pystr

datatype unpickled =
    Session4 "(pystr, PhraseList) dict" "pystr set" "(pystr, Folder) dict" pyobj
  | WrongLength
  | NotIterable

text \<open>
  \<^verbatim>\<open>min(current_index, n)\<close> for an integer \<open>n\<close>: comparing \<^verbatim>\<open>None\<close> or a string with an
  integer raises \<^verbatim>\<open>TypeError\<close>.
\<close>

definition py_min :: "pyobj \<Rightarrow> int \<Rightarrow> py_error + int" where
  "py_min a n = (case a of PyInt i \<Rightarrow> Inr (min i n) | PyNone \<Rightarrow> Inl TypeError | PyStr s \<Rightarrow> Inl TypeError)"

text \<open>
  The tab that the loop \<^verbatim>\<open>for name, pl in self.phrase_lists.items()\<close> creates and adds
  for one list.
\<close>

definition session_tab :: "MainWindow \<Rightarrow> pystr \<Rightarrow> PhraseList \<Rightarrow> PhraseTab" where
  "session_tab w n pl =
     (let t1 = load_data MainPhraseTable_init (pl_phrases pl);
          t2 = t1\<lparr>table_history := pl_history pl,
                   table_stop_words := pl_stop_words pl \<union> global_stop_words w,
                   table_folders := pl_folders pl,
                   table_global_folders := global_folders w\<rparr>
      in PhraseTab_init\<lparr>tab_name := n, table := t2\<rparr>)"

text \<open>
  The statements of the \<^verbatim>\<open>try\<close> block after the assignment: the old tabs are removed,
  one tab per list is added, the widgets of the global scope are loaded, and the tab of
  the stored index, at most the last one, is made current. \<open>cur_index\<close> is the local
  variable \<^verbatim>\<open>current_index\<close>.
\<close>

definition show_session :: "MainWindow \<Rightarrow> pyobj \<Rightarrow> py_error option \<times> MainWindow" where
  "show_session w cur_index =
     (let q1 = remove_all_tabs (phrase_tabs w);
          q2 = fold (\<lambda>(n, pl) q. addTab q (session_tab w n pl)) (phrase_lists w) q1;
          w1 = w\<lparr>phrase_tabs := q2,
                  general_stop := global_stop_words w,
                  general_folders := global_folders w\<rparr>;
          w2 = update_global_grouping w1
      in if tab_count (phrase_tabs w2) > 0
         then (case py_min cur_index (tab_count (phrase_tabs w2) - 1) of
                 Inl e \<Rightarrow> (Some e, w2)
               | Inr i \<Rightarrow>
                   (let w3 = w2\<lparr>phrase_tabs := setCurrentIndex (phrase_tabs w2) i\<rparr>
                    in on_phrase_tab_changed w3 (currentIndex (phrase_tabs w3))))
         else (None, w2))"

text \<open>
  \<^verbatim>\<open>load_session\<close>. \<open>file_path\<close> is what the file dialog returns (empty when it is
  cancelled) and \<open>content\<close> what \<^verbatim>\<open>open\<close> and \<^verbatim>\<open>pickle.load\<close> give for that path,
  \<open>Inl\<close> when one of them raises. The result says whether the \<^verbatim>\<open>except\<close> branch, which
  reports the failure in a message box, was taken, and gives the window after the call.
\<close>

datatype load_result = Cancelled | Loaded | Failed py_error

definition load_session ::
  "MainWindow \<Rightarrow> pystr \<Rightarrow> py_error + unpickled \<Rightarrow> load_result \<times> MainWindow" where
  "load_session w file_path content =
     (if file_path = [] then (Cancelled, w)
      else (case content of
              Inl e \<Rightarrow> (Failed e, w)
            | Inr WrongLength \<Rightarrow> (Failed ValueError, w)
            | Inr NotIterable \<Rightarrow> (Failed TypeError, w)
            | Inr (Session4 loaded_lists loaded_stop_words loaded_folders cur_index) \<Rightarrow>
                (let w1 = w\<lparr>phrase_lists := loaded_lists, global_stop_words := loaded_stop_words,
                            global_folders := loaded_folders\<rparr>
                 in case show_session w1 cur_index of
                      (Some e, w2) \<Rightarrow> (Failed e, w2)
                    | (None, w2) \<Rightarrow> (Loaded, w2\<lparr>current_session_path := Some file_path\<rparr>))))"

section \<open>Notions of the specification\<close>

text \<open>
  The definitions of this section do not come from the source: they write down, in the
  words of the specification, what an operation is expected to compute, and the
  properties below compare them with the functions modelled above.
\<close>

text \<open>
  Deduplication. Two entries are in one class when their keys are equal; the key of an
  entry is its lowercased text without leading and trailing whitespace. The entry at
  index \<open>i\<close> is the first occurrence of its class when no entry before it has its key;
  \<open>first_occurrences\<close> keeps exactly those entries, in input order.
\<close>

definition dedup_key :: "phrase \<Rightarrow> pystr" where
  "dedup_key entry = py_strip (py_lower (fst entry))"

definition first_occurrences :: "('a \<Rightarrow> 'k) \<Rightarrow> 'a list \<Rightarrow> 'a list" where
  "first_occurrences key xs =
     [xs ! i. i \<leftarrow> [0..<length xs], key (xs ! i) \<notin> key ` set (take i xs)]"

text \<open>An entry with its text trimmed and its frequency as it is.\<close>

definition trimmed :: "phrase \<Rightarrow> phrase" where
  "trimmed entry = (py_strip (fst entry), snd entry)"

text \<open>
  The same selection written as a recursion with the set of keys met so far; it is the
  form in which the loops of the source are compared with \<open>first_occurrences\<close>.
\<close>

fun first_new :: "'k set \<Rightarrow> ('a \<Rightarrow> 'k) \<Rightarrow> 'a list \<Rightarrow> 'a list" where
  "first_new S key [] = []"
| "first_new S key (x # xs) =
     (if key x \<in> S then first_new S key xs else x # first_new (insert (key x) S) key xs)"


text \<open>
  Removing special characters: every code point that is not a letter, a digit or
  whitespace becomes a space, every run of whitespace becomes one space, the result is
  trimmed, and an entry whose text becomes empty is dropped.
\<close>

definition spec_clean :: "pystr \<Rightarrow> pystr" where
  "spec_clean text =
     py_strip (sub_spaces (map (\<lambda>c. if py_isalnum c \<or> py_isspace c then c else 32) text))"

definition spec_remove_special_chars :: "phrase list \<Rightarrow> phrase list" where
  "spec_remove_special_chars phrases =
     [(spec_clean p, f). (p, f) \<leftarrow> phrases, spec_clean p \<noteq> []]"

text \<open>
  Moving phrases out of a list: the entries of \<open>source\<close> that remain when every entry
  with the key (trimmed, lowercased text) of one of the moved phrases is removed.
\<close>

definition moved_out :: "phrase list \<Rightarrow> phrase list \<Rightarrow> phrase list" where
  "moved_out moved source = [e \<leftarrow> source. dedup_key e \<notin> dedup_key ` set moved]"

section \<open>Example states\<close>

text \<open>
  A phrase list with one entry, as a session file can hold it; a table with three
  entries, two of them with the same key; and a window with that table in its only tab
  and one empty folder in the folder widget of the list.
\<close>

definition example_list :: PhraseList where
  "example_list =
     \<lparr>pl_name = str ''A'', pl_phrases = [(str ''x'', 1)], pl_stop_words = {}, pl_folders = [],
      pl_history = set_initial_state HistoryManager_default [(str ''x'', 1)]\<rparr>"

definition example_table :: MainPhraseTable where
  "example_table =
     load_data MainPhraseTable_init
       [(str ''Buy Shoes'', 10), (str ''red hat'', 3), (str '' buy shoes '', 7)]"

definition example_tab :: PhraseTab where
  "example_tab = \<lparr>tab_name = str ''A'', table = example_table\<rparr>"

definition example_window :: MainWindow where
  "example_window =
     MainWindow_init
       \<lparr>phrase_lists := [(str ''A'', example_list\<lparr>pl_phrases := current_data example_table\<rparr>)],
        folders_widget := [(str ''shoes'', Folder_init (str ''shoes''))],
        phrase_tabs := \<lparr>tabs = [example_tab], currentIndex = 0\<rparr>\<rparr>"

section \<open>Properties\<close>

subsection \<open>Folder: adding a phrase\<close>

lemma add_phrase_member:
  "(p, f) \<in> set (folder_phrases F) \<Longrightarrow> add_phrase F p f = F"
  by (simp add: add_phrase_def)

lemma add_phrase_new:
  "(p, f) \<notin> set (folder_phrases F) \<Longrightarrow> folder_phrases (add_phrase F p f) = folder_phrases F @ [(p, f)]"
  by (simp add: add_phrase_def)

lemma add_phrase_in: "(p, f) \<in> set (folder_phrases (add_phrase F p f))"
  by (simp add: add_phrase_def)

lemma add_phrase_keeps: "x \<in> set (folder_phrases F) \<Longrightarrow> x \<in> set (folder_phrases (add_phrase F p f))"
  by (simp add: add_phrase_def)

lemma add_phrase_distinct:
  "distinct (folder_phrases F) \<Longrightarrow> distinct (folder_phrases (add_phrase F p f))"
  by (simp add: add_phrase_def)

lemma add_phrase_twice: "add_phrase (add_phrase F p f) p f = add_phrase F p f"
  by (simp add: add_phrase_member add_phrase_in)

lemma count_list_1_distinct:
  "distinct xs \<Longrightarrow> x \<in> set xs \<Longrightarrow> count_list xs x = 1"
  by (induction xs) (auto simp: count_list_0_iff)

text \<open>
  C8. \<^verbatim>\<open>Folder.add_phrase\<close> does nothing when the exact (text, frequency) tuple is a
  member already, so adding the same tuple twice is adding it once, and in a folder
  without repeated tuples the tuple is then present exactly once. Membership is by the
  whole tuple: the same text with two different frequencies gives two members, both
  present after both have been added, each exactly once.
\<close>

theorem add_phrase_exact_tuple:
  "((p, f) \<in> set (folder_phrases F) \<longrightarrow> add_phrase F p f = F) \<and>
   add_phrase (add_phrase F p f) p f = add_phrase F p f \<and>
   (distinct (folder_phrases F) \<longrightarrow>
      count_list (folder_phrases (add_phrase (add_phrase F p f) p f)) (p, f) = 1) \<and>
   (f \<noteq> f' \<and> distinct (folder_phrases F) \<longrightarrow>
      count_list (folder_phrases (add_phrase (add_phrase F p f) p f')) (p, f) = 1 \<and>
      count_list (folder_phrases (add_phrase (add_phrase F p f) p f')) (p, f') = 1)"
proof -
  have twice: "add_phrase (add_phrase F p f) p f = add_phrase F p f"
    by (rule add_phrase_twice)
  have one: "count_list (folder_phrases (add_phrase F p f)) (p, f) = 1" if "distinct (folder_phrases F)"
    using that by (intro count_list_1_distinct add_phrase_distinct add_phrase_in)
  have both: "count_list (folder_phrases (add_phrase (add_phrase F p f) p f')) (p, f) = 1 \<and>
      count_list (folder_phrases (add_phrase (add_phrase F p f) p f')) (p, f') = 1"
    if "distinct (folder_phrases F)"
    using that
    by (intro conjI count_list_1_distinct add_phrase_distinct add_phrase_in add_phrase_keeps)
  show ?thesis
    using twice one both by (simp add: add_phrase_member)
qed

theorem add_phrase_exact_tuple_witness:
  "(str ''buy shoes'', 10) \<in> set (folder_phrases \<lparr>folder_name = str ''A'', folder_phrases = [(str ''buy shoes'', 10)]\<rparr>) \<and>
   (10::int) \<noteq> 7 \<and>
   distinct (folder_phrases \<lparr>folder_name = str ''A'', folder_phrases = [(str ''buy shoes'', 10)]\<rparr>) \<and>
   add_phrase \<lparr>folder_name = str ''A'', folder_phrases = [(str ''buy shoes'', 10)]\<rparr> (str ''buy shoes'') 10
     = \<lparr>folder_name = str ''A'', folder_phrases = [(str ''buy shoes'', 10)]\<rparr> \<and>
   count_list (folder_phrases (add_phrase (add_phrase
       \<lparr>folder_name = str ''A'', folder_phrases = [(str ''buy shoes'', 10)]\<rparr> (str ''buy shoes'') 10)
       (str ''buy shoes'') 7)) (str ''buy shoes'', 7) = 1"
  using add_phrase_exact_tuple
    [of "str ''buy shoes''" 10 "\<lparr>folder_name = str ''A'', folder_phrases = [(str ''buy shoes'', 10)]\<rparr>" 7]
  by (simp add: add_phrase_def)

subsection \<open>HistoryManager: undo, redo and a new branch\<close>

lemma pop_after_take:
  "- 1 \<le> ci \<Longrightarrow> pop_after d ci = Inr (take (nat (ci + 1)) d)"
proof (induction d ci rule: pop_after.induct)
  case (1 d ci)
  show ?case
  proof (cases "int (length d) > ci + 1")
    case False
    then show ?thesis by (subst pop_after.simps) simp
  next
    case True
    with "1.prems" have ne: "d \<noteq> []" by auto
    then have pop: "deque_pop d = Inr (butlast d)" by (simp add: deque_pop_def)
    have "pop_after d ci = pop_after (butlast d) ci"
      using True pop by (subst pop_after.simps) simp
    also have "\<dots> = Inr (take (nat (ci + 1)) (butlast d))"
      using "1.IH"[OF True pop] "1.prems" by simp
    also have "take (nat (ci + 1)) (butlast d) = take (nat (ci + 1)) d"
      using True "1.prems" by (simp add: take_butlast)
    finally show ?thesis .
  qed
qed

lemma add_state_cursor:
  "- 1 \<le> current_index h \<Longrightarrow>
   add_state h s =
     Inr (h\<lparr>history :=
             deque_append (max_history h) (take (nat (current_index h + 1)) (history h)) s,
           current_index :=
             int (length (deque_append (max_history h)
                    (take (nat (current_index h + 1)) (history h)) s)) - 1\<rparr>)"
  by (simp add: add_state_def pop_after_take Let_def)

text \<open>
  C1. On a manager whose capacity is at least two (the source always constructs it with
  the default, 50), whatever it held before: after \<^verbatim>\<open>set_initial_state(S0)\<close>,
  \<^verbatim>\<open>add_state(S1)\<close>, \<^verbatim>\<open>add_state(S2)\<close>, the call \<^verbatim>\<open>undo()\<close> returns S1 and a following
  \<^verbatim>\<open>redo()\<close> returns S2; the undo only moves the cursor, the snapshots stay. If
  \<^verbatim>\<open>add_state(S3)\<close> is called right after that undo instead, the snapshot S2 is removed
  from the stack, which then ends with S1 and S3 (S0 before them unless the capacity is
  two), the cursor is on S3, the next \<^verbatim>\<open>redo()\<close> returns \<^verbatim>\<open>None\<close> and changes nothing,
  and an \<^verbatim>\<open>undo()\<close> returns S1 again. No call raises.
\<close>

theorem history_undo_redo_branch:
  assumes "2 \<le> max_history h"
  shows "\<exists>h1 h2 h3 h4 h5 h6 h7.
     add_state (set_initial_state h S0) S1 = Inr h1 \<and> add_state h1 S2 = Inr h2 \<and>
     history h2 = (if max_history h = 2 then [S1, S2] else [S0, S1, S2]) \<and>
     undo h2 = Inr (Some S1, h3) \<and> history h3 = history h2 \<and> can_redo h3 \<and>
     redo h3 = Inr (Some S2, h4) \<and> h4 = h2 \<and>
     add_state h3 S3 = Inr h5 \<and>
     history h5 = (if max_history h = 2 then [S1, S3] else [S0, S1, S3]) \<and>
     current_index h5 = int (length (history h5)) - 1 \<and>
     \<not> can_redo h5 \<and> redo h5 = Inr (None, h6) \<and> h6 = h5 \<and>
     undo h5 = Inr (Some S1, h7)"
proof -
  define h0 where "h0 = set_initial_state h S0"
  define h1 where "h1 = h0\<lparr>history := [S0, S1], current_index := 1\<rparr>"
  define d2 where "d2 = (if max_history h = 2 then [S1, S2] else [S0, S1, S2])"
  define h2 where "h2 = h1\<lparr>history := d2, current_index := int (length d2) - 1\<rparr>"
  define h3 where "h3 = h2\<lparr>current_index := int (length d2) - 2\<rparr>"
  define d5 where "d5 = (if max_history h = 2 then [S1, S3] else [S0, S1, S3])"
  define h5 where "h5 = h3\<lparr>history := d5, current_index := int (length d5) - 1\<rparr>"
  define h7 where "h7 = h5\<lparr>current_index := int (length d5) - 2\<rparr>"
  have h0: "history h0 = [S0]" "current_index h0 = 0" "max_history h0 = max_history h"
    using assms by (simp_all add: h0_def set_initial_state_def deque_append_def)
  have s1: "add_state h0 S1 = Inr h1"
    using assms h0 by (simp add: add_state_cursor deque_append_def h1_def)
  have h1: "history h1 = [S0, S1]" "current_index h1 = 1" "max_history h1 = max_history h"
    using h0 by (simp_all add: h1_def)
  have s2: "add_state h1 S2 = Inr h2"
    using assms h1 by (simp add: add_state_cursor deque_append_def h2_def d2_def)
  have h2: "history h2 = d2" "current_index h2 = int (length d2) - 1"
    "max_history h2 = max_history h"
    using h1 by (simp_all add: h2_def)
  have s3: "undo h2 = Inr (Some S1, h3)"
    using h2 by (simp add: undo_def py_getitem_def h3_def d2_def)
  have h3: "history h3 = d2" "current_index h3 = int (length d2) - 2"
    "max_history h3 = max_history h"
    using h2 by (simp_all add: h3_def)
  have c3: "can_redo h3"
    using h3 by (simp add: can_redo_def)
  have s4': "redo h3 = Inr (Some S2, h3\<lparr>current_index := int (length d2) - 1\<rparr>)"
    using h3 by (simp add: redo_def py_getitem_def d2_def)
  have "h3\<lparr>current_index := int (length d2) - 1\<rparr> = h2"
    by (simp add: h3_def h2_def)
  with s4' have s4: "redo h3 = Inr (Some S2, h2)"
    by simp
  have s5: "add_state h3 S3 = Inr h5"
    using assms h3 by (simp add: add_state_cursor deque_append_def h5_def d2_def d5_def)
  have h5: "history h5 = d5" "current_index h5 = int (length d5) - 1"
    by (simp_all add: h5_def)
  have c5: "\<not> can_redo h5"
    using h5 by (simp add: can_redo_def)
  have s6: "redo h5 = Inr (None, h5)"
    using h5 by (simp add: redo_def)
  have s7: "undo h5 = Inr (Some S1, h7)"
    using h5 by (simp add: undo_def py_getitem_def h7_def d5_def)
  have "add_state (set_initial_state h S0) S1 = Inr h1 \<and> add_state h1 S2 = Inr h2 \<and>
     history h2 = d2 \<and>
     undo h2 = Inr (Some S1, h3) \<and> history h3 = history h2 \<and> can_redo h3 \<and>
     redo h3 = Inr (Some S2, h2) \<and> h2 = h2 \<and>
     add_state h3 S3 = Inr h5 \<and> history h5 = d5 \<and>
     current_index h5 = int (length (history h5)) - 1 \<and>
     \<not> can_redo h5 \<and> redo h5 = Inr (None, h5) \<and> h5 = h5 \<and>
     undo h5 = Inr (Some S1, h7)"
    using s1 s2 s3 s4 s5 s6 s7 h2 h3 h5 c3 c5 unfolding h0_def by simp
  then show ?thesis
    unfolding d2_def d5_def by blast
qed

theorem history_undo_redo_branch_witness:
  "2 \<le> max_history HistoryManager_default \<and>
   (\<exists>h1 h2 h3 h4 h5 h6 h7.
     add_state (set_initial_state HistoryManager_default [(str ''a'', 1)]) [(str ''b'', 2)]
       = Inr h1 \<and>
     add_state h1 [(str ''c'', 3)] = Inr h2 \<and>
     history h2 = [[(str ''a'', 1)], [(str ''b'', 2)], [(str ''c'', 3)]] \<and>
     undo h2 = Inr (Some [(str ''b'', 2)], h3) \<and>
     redo h3 = Inr (Some [(str ''c'', 3)], h4) \<and>
     add_state h3 [(str ''d'', 4)] = Inr h5 \<and>
     history h5 = [[(str ''a'', 1)], [(str ''b'', 2)], [(str ''d'', 4)]] \<and>
     redo h5 = Inr (None, h6) \<and>
     undo h5 = Inr (Some [(str ''b'', 2)], h7))"
proof -
  have cap: "2 \<le> max_history HistoryManager_default"
    by (simp add: HistoryManager_default_def HistoryManager_init_def)
  have fifty: "max_history HistoryManager_default \<noteq> 2"
    by (simp add: HistoryManager_default_def HistoryManager_init_def)
  from history_undo_redo_branch
      [OF cap, of "[(str ''a'', 1)]" "[(str ''b'', 2)]" "[(str ''c'', 3)]" "[(str ''d'', 4)]"]
  obtain h1 h2 h3 h4 h5 h6 h7 where
    "add_state (set_initial_state HistoryManager_default [(str ''a'', 1)]) [(str ''b'', 2)]
       = Inr h1"
    "add_state h1 [(str ''c'', 3)] = Inr h2"
    "history h2 = [[(str ''a'', 1)], [(str ''b'', 2)], [(str ''c'', 3)]]"
    "undo h2 = Inr (Some [(str ''b'', 2)], h3)"
    "redo h3 = Inr (Some [(str ''c'', 3)], h4)"
    "add_state h3 [(str ''d'', 4)] = Inr h5"
    "history h5 = [[(str ''a'', 1)], [(str ''b'', 2)], [(str ''d'', 4)]]"
    "redo h5 = Inr (None, h6)"
    "undo h5 = Inr (Some [(str ''b'', 2)], h7)"
    using fifty by auto
  with cap show ?thesis by blast
qed

subsection \<open>remove_duplicates\<close>

lemma first_new_index:
  "first_new S key xs = [xs ! i. i \<leftarrow> [0..<length xs], key (xs ! i) \<notin> S \<union> key ` set (take i xs)]"
proof (induction xs arbitrary: S)
  case Nil
  then show ?case by simp
next
  case (Cons x xs)
  have upt: "[0..<length (x # xs)] = 0 # map Suc [0..<length xs]"
    by (simp add: upt_conv_Cons map_Suc_upt del: upt_Suc)
  show ?case
    unfolding upt
    by (auto simp add: Cons.IH comp_def intro!: arg_cong[where f = concat] map_cong)
qed

lemma first_occurrences_first_new: "first_occurrences key xs = first_new {} key xs"
  by (simp add: first_occurrences_def first_new_index)

lemma remove_duplicates_loop_first_new:
  "remove_duplicates_loop seen result rest = result @ map trimmed (first_new seen dedup_key rest)"
  by (induction seen result rest rule: remove_duplicates_loop.induct)
     (simp_all add: Let_def dedup_key_def trimmed_def)

text \<open>
  C3 (as amended). \<^verbatim>\<open>remove_duplicates\<close> keeps, of every class of entries with equal
  keys (the lowercased text without surrounding whitespace), exactly the first
  occurrence, in input order and with its frequency; the text of a kept entry is the
  text of that first occurrence with leading and trailing whitespace removed, its case
  and every inner code point unchanged.
\<close>

theorem remove_duplicates_first_trimmed:
  "remove_duplicates phrases = map trimmed (first_occurrences dedup_key phrases)"
  by (simp add: remove_duplicates_def remove_duplicates_loop_first_new first_occurrences_first_new)

text \<open>
  The claim as it is written, with the exact original text of the first occurrence,
  fails on an entry with a leading space: \<^verbatim>\<open>[(" a", 1)]\<close> gives \<^verbatim>\<open>[("a", 1)]\<close>.
\<close>

theorem remove_duplicates_original_text_counterexample:
  "remove_duplicates [(str '' a'', 1)] \<noteq> first_occurrences dedup_key [(str '' a'', 1)]"
  by (simp add: remove_duplicates_def first_occurrences_def py_lower_def str_def lower_cp_def
      py_strip_def py_isspace_def)

text \<open>
  Lowercasing and trimming commute, so the key is as well the trimmed text, lowercased.
\<close>

lemma isspace_lower_cp: "py_isspace (lower_cp c) = py_isspace c"
  by (auto simp add: py_isspace_def lower_cp_def)

lemma dropWhile_map_lower: "dropWhile py_isspace (map lower_cp s) = map lower_cp (dropWhile py_isspace s)"
  by (induction s) (simp_all add: isspace_lower_cp)

lemma strip_lower_commute: "py_strip (py_lower s) = py_lower (py_strip s)"
  by (simp add: py_strip_def py_lower_def dropWhile_map_lower rev_map)


lemma first_new_keys_distinct:
  "distinct (map key (first_new S key xs)) \<and> key ` set (first_new S key xs) \<inter> S = {}"
  by (induction xs arbitrary: S) auto

lemma remove_duplicates_keys_distinct:
  "distinct (map dedup_key (first_occurrences dedup_key phrases))"
  by (simp add: first_occurrences_first_new first_new_keys_distinct)

subsection \<open>filter_by_stop_words\<close>

lemma filter_by_stop_words_tokens:
  "filter_by_stop_words phrases stop_words =
     [(phrase, freq) \<leftarrow> phrases. set (py_split (py_lower phrase)) \<inter> stop_words = {}]"
  by (simp add: filter_by_stop_words_def)

text \<open>
  C5. In whole-token mode (main.py: an entry is removed iff a whitespace token of its
  lowercased text is in the stop-word set), the stop words \<^verbatim>\<open>{"cheap"}\<close> applied to
  \<^verbatim>\<open>[("cheap flights", 10), ("flights", 5)]\<close> give exactly \<^verbatim>\<open>[("flights", 5)]\<close>.
\<close>

theorem filter_by_stop_words_cheap_flights:
  "filter_by_stop_words phrases stop_words =
     [(phrase, freq) \<leftarrow> phrases. set (py_split (py_lower phrase)) \<inter> stop_words = {}] \<and>
   filter_by_stop_words [(str ''cheap flights'', 10), (str ''flights'', 5)] {str ''cheap''}
     = [(str ''flights'', 5)]"
  by (simp add: filter_by_stop_words_def py_lower_def str_def lower_cp_def py_split_def
      py_isspace_def)

text \<open>The substring test of main_merged_qt5.py gives the same list on this input.\<close>

lemma filter_by_stop_words_qt5_cheap_flights:
  "filter_by_stop_words_qt5 [(str ''cheap flights'', 10), (str ''flights'', 5)] {str ''cheap''}
     = [(str ''flights'', 5)]"
  by (simp add: filter_by_stop_words_qt5_def py_lower_def str_def lower_cp_def sublist_code)

subsection \<open>remove_special_chars\<close>

text \<open>
  On texts without an underscore the function is the one of the specification.
\<close>

lemma sub_special_without_underscore:
  "95 \<notin> set p \<Longrightarrow> py_strip (sub_spaces (sub_special p)) = spec_clean p"
proof -
  assume "95 \<notin> set p"
  then have "sub_special p = map (\<lambda>c. if py_isalnum c \<or> py_isspace c then c else 32) p"
    unfolding sub_special_def by (intro map_cong) auto
  then show ?thesis by (simp add: spec_clean_def)
qed

lemma remove_special_chars_without_underscore:
  "\<forall>(p, f) \<in> set phrases. 95 \<notin> set p \<Longrightarrow>
   remove_special_chars phrases = spec_remove_special_chars phrases"
  by (induction phrases rule: remove_special_chars.induct)
     (simp_all add: spec_remove_special_chars_def sub_special_without_underscore Let_def)

text \<open>
  C9. The comment in the source says that only letters, digits and spaces are kept, and
  the claim says that every other character becomes a space. The class \<^verbatim>\<open>\w\<close> of the
  regular expression also holds the underscore, so \<^verbatim>\<open>[("a_b", 1)]\<close> comes back unchanged,
  where the claim gives \<^verbatim>\<open>[("a b", 1)]\<close>.
\<close>

theorem remove_special_chars_keeps_underscore:
  "remove_special_chars [(str ''a_b'', 1)] = [(str ''a_b'', 1)] \<and>
   spec_remove_special_chars [(str ''a_b'', 1)] = [(str ''a b'', 1)]"
  by (simp add: sub_special_def spec_remove_special_chars_def spec_clean_def str_def
      py_strip_def py_isspace_def py_isalnum_def)

subsection \<open>group_phrases\<close>
















subsection \<open>Frequencies\<close>

lemma mset_py_sorted: "mset (py_sorted key reverse xs) = mset xs"
  by (simp add: py_sorted_def)

lemma subseq_first_new: "subseq (first_new S key xs) xs"
  by (induction xs arbitrary: S) auto

lemma remove_special_chars_filter:
  "remove_special_chars phrases =
     map (\<lambda>(p, f). (py_strip (sub_spaces (sub_special p)), f))
       [(p, f) \<leftarrow> phrases. py_strip (sub_spaces (sub_special p)) \<noteq> []]"
  by (induction phrases rule: remove_special_chars.induct) (simp_all add: Let_def)

lemma snd_transliterate_entry: "snd (transliterate_entry translit reverse e) = snd e"
  by (cases e) (simp add: transliterate_entry_def split: sum.splits)

lemma snd_transliterate_entry_qt5: "snd (transliterate_entry_qt5 translit reverse e) = snd e"
  by (cases e) (simp add: transliterate_entry_qt5_def split: sum.splits)

text \<open>
  C10. No operation of \<^verbatim>\<open>PhraseProcessor\<close> changes a frequency. The two sorts return a
  permutation of the input entries. \<^verbatim>\<open>convert_case\<close> and \<^verbatim>\<open>transliterate_phrases\<close>
  (both variants) return one entry per input entry, in order, with its frequency.
  \<^verbatim>\<open>remove_long_phrases\<close> and \<^verbatim>\<open>filter_by_stop_words\<close> (both variants) return a
  subsequence of the input entries, unchanged. \<^verbatim>\<open>remove_special_chars\<close> and
  \<^verbatim>\<open>remove_duplicates\<close> return, for a subsequence of the input entries, the entry with
  its text rewritten and its frequency as it was.
\<close>

theorem processor_preserves_frequencies:
  "mset (sort_phrases_alphabetically phrases reverse) = mset phrases \<and>
   mset (sort_phrases_by_frequency phrases reverse) = mset phrases \<and>
   map snd (convert_case phrases to_upper) = map snd phrases \<and>
   (\<exists>kept. subseq kept phrases \<and>
      remove_special_chars phrases =
        map (\<lambda>(p, f). (py_strip (sub_spaces (sub_special p)), f)) kept) \<and>
   subseq (remove_long_phrases phrases max_words) phrases \<and>
   map snd (transliterate_phrases translit phrases reverse) = map snd phrases \<and>
   map snd (transliterate_phrases_qt5 translit phrases reverse) = map snd phrases \<and>
   subseq (filter_by_stop_words phrases stop_words) phrases \<and>
   subseq (filter_by_stop_words_qt5 phrases stop_words) phrases \<and>
   (\<exists>kept. subseq kept phrases \<and> remove_duplicates phrases = map trimmed kept)"
proof -
  have a: "mset (sort_phrases_alphabetically phrases reverse) = mset phrases"
    by (simp add: sort_phrases_alphabetically_def mset_py_sorted)
  have b: "mset (sort_phrases_by_frequency phrases reverse) = mset phrases"
    by (simp add: sort_phrases_by_frequency_def mset_py_sorted)
  have c: "map snd (convert_case phrases to_upper) = map snd phrases"
    by (simp add: convert_case_def case_prod_beta comp_def)
  have d: "\<exists>kept. subseq kept phrases \<and>
      remove_special_chars phrases =
        map (\<lambda>(p, f). (py_strip (sub_spaces (sub_special p)), f)) kept"
    using remove_special_chars_filter subseq_filter_left by blast
  have e: "subseq (remove_long_phrases phrases max_words) phrases"
    by (simp add: remove_long_phrases_def)
  have f: "map snd (transliterate_phrases translit phrases reverse) = map snd phrases"
    by (simp add: transliterate_phrases_def comp_def snd_transliterate_entry)
  have g: "map snd (transliterate_phrases_qt5 translit phrases reverse) = map snd phrases"
    by (simp add: transliterate_phrases_qt5_def comp_def snd_transliterate_entry_qt5)
  have h: "subseq (filter_by_stop_words phrases stop_words) phrases"
    by (simp add: filter_by_stop_words_def)
  have i: "subseq (filter_by_stop_words_qt5 phrases stop_words) phrases"
    by (simp add: filter_by_stop_words_qt5_def)
  have j: "\<exists>kept. subseq kept phrases \<and> remove_duplicates phrases = map trimmed kept"
    using remove_duplicates_loop_first_new[of "{}" "[]" phrases, folded remove_duplicates_def, simplified] subseq_first_new by blast
  show ?thesis
    using a b c d e f g h i j by blast
qed

subsection \<open>transliterate_phrases\<close>

text \<open>
  main.py, main_improved.py and main_merged.py: the conversion is fail-soft and touches
  only entries of the other script. Forward (\<^verbatim>\<open>reverse=False\<close>) an entry is handed to
  \<^verbatim>\<open>translit\<close> only when it has a letter of the Cyrillic class; an entry whose text
  changes was of the script to convert and \<^verbatim>\<open>translit\<close> returned the new text.
\<close>

lemma transliterate_entry_forward:
  "transliterate_entry translit False (p, f) =
     (if has_cyrillic p
      then (case translit p True of Inr t \<Rightarrow> (t, f) | Inl e \<Rightarrow> (p, f))
      else (p, f))"
  by (simp add: transliterate_entry_def)

lemma transliterate_entry_reverse:
  "transliterate_entry translit True (p, f) =
     (if has_cyrillic p then (p, f)
      else (case translit p False of Inr t \<Rightarrow> (t, f) | Inl e \<Rightarrow> (p, f)))"
  by (simp add: transliterate_entry_def)

lemma transliterate_phrases_guarded:
  "length (transliterate_phrases translit phrases reverse) = length phrases \<and>
   (\<forall>i < length phrases.
      (let (p, f) = phrases ! i; (p', f') = transliterate_phrases translit phrases reverse ! i
       in f' = f \<and>
          (p' \<noteq> p \<longrightarrow> has_cyrillic p = (\<not> reverse) \<and> translit p (\<not> reverse) = Inr p')))"
  by (auto simp: transliterate_phrases_def transliterate_entry_def Let_def
      split: prod.splits sum.splits if_splits)

text \<open>
  C6. main_merged_qt5.py has lost the test of the script, and its \<^verbatim>\<open>reverse=False\<close>
  calls \<^verbatim>\<open>translit(phrase, 'ru')\<close>, the conversion into Cyrillic, although the menu
  entry that calls it is the one from Russian to English. The entry \<^verbatim>\<open>("hello", 1)\<close> has
  no Cyrillic letter: forward conversion leaves it unchanged in main.py for every
  \<^verbatim>\<open>translit\<close>, and in main_merged_qt5.py the text is whatever \<^verbatim>\<open>translit\<close> returns for
  it.
\<close>

theorem transliterate_phrases_qt5_no_script_test:
  "\<not> has_cyrillic (str ''hello'') \<and>
   transliterate_phrases translit [(str ''hello'', 1)] False = [(str ''hello'', 1)] \<and>
   transliterate_phrases_qt5 translit [(str ''hello'', 1)] False =
     [(case translit (str ''hello'') False of Inl e \<Rightarrow> str ''hello'' | Inr t \<Rightarrow> t, 1)]"
  by (simp add: transliterate_phrases_def transliterate_entry_def transliterate_phrases_qt5_def
      transliterate_entry_qt5_def has_cyrillic_def str_def split: sum.splits)

subsection \<open>load_session\<close>

text \<open>
  C2 (as amended). When opening or unpickling the session file raises, or the unpickled
  object does not unpack into four values, \<^verbatim>\<open>load_session\<close> reports the failure and
  leaves the window exactly as it was: every phrase list with its history, the global
  stop words, the global folders, the tabs and the active index.
\<close>

theorem load_session_read_failure_keeps_window:
  "load_session w file_path (Inl e) = (if file_path = [] then Cancelled else Failed e, w) \<and>
   load_session w file_path (Inr WrongLength)
     = (if file_path = [] then Cancelled else Failed ValueError, w) \<and>
   load_session w file_path (Inr NotIterable)
     = (if file_path = [] then Cancelled else Failed TypeError, w)"
  by (simp add: load_session_def)

text \<open>
  The claim as it is written fails, because the three attributes are assigned before the
  tabs are rebuilt and nothing restores them. In a new window, a session file that holds
  one list, the global stop word "cheap" and \<^verbatim>\<open>None\<close> in the place of the tab index
  makes \<^verbatim>\<open>min(current_index, \<dots>)\<close> raise \<^verbatim>\<open>TypeError\<close>: the failure is reported, and
  the global stop words of the window are those of the file.
\<close>

theorem load_session_late_failure_counterexample:
  "fst (load_session MainWindow_init (str ''s.session'')
          (Inr (Session4 [(str ''A'', example_list)] {str ''cheap''} [] PyNone)))
     = Failed TypeError \<and>
   global_stop_words (snd (load_session MainWindow_init (str ''s.session'')
          (Inr (Session4 [(str ''A'', example_list)] {str ''cheap''} [] PyNone))))
     = {str ''cheap''} \<and>
   global_stop_words MainWindow_init = {} \<and>
   snd (load_session MainWindow_init (str ''s.session'')
          (Inr (Session4 [(str ''A'', example_list)] {str ''cheap''} [] PyNone)))
     \<noteq> MainWindow_init"
proof -
  let ?r = "load_session MainWindow_init (str ''s.session'')
          (Inr (Session4 [(str ''A'', example_list)] {str ''cheap''} [] PyNone))"
  have p: "str ''s.session'' \<noteq> []" by (simp add: str_def)
  have cnt: "phrase_tabs (update_global_grouping w) = phrase_tabs w" for w
    by (simp add: update_global_grouping_def sync_current_tab_def set_phrase_list_def
        split: option.splits)
  have gsw: "global_stop_words (update_global_grouping w) = global_stop_words w" for w
    by (simp add: update_global_grouping_def sync_current_tab_def set_phrase_list_def
        split: option.splits)
  have r1: "fst ?r = Failed TypeError"
    using p by (simp add: load_session_def show_session_def Let_def cnt py_min_def
        tab_count_def addTab_def remove_all_tabs_def)
  have r2: "global_stop_words (snd ?r) = {str ''cheap''}"
    using p by (simp add: load_session_def show_session_def Let_def cnt gsw py_min_def
        tab_count_def addTab_def remove_all_tabs_def)
  have r3: "global_stop_words MainWindow_init = {}"
    by (simp add: MainWindow_init_def)
  from r2 r3 have "snd ?r \<noteq> MainWindow_init" by auto
  with r1 r2 r3 show ?thesis by blast
qed


subsection \<open>on_phrases_to_folder\<close>

lemma add_phrases_to_folder_one_folder:
  "map_of folders fname = Some F \<Longrightarrow>
   map_of (add_phrases_to_folder folders (map (\<lambda>(p, f). (fname, p, f)) phrases)) =
     (map_of folders)(fname \<mapsto> fold (\<lambda>(p, f) G. add_phrase G p f) phrases F)"
proof (induction phrases arbitrary: folders F)
  case Nil
  then show ?case by (auto simp: fun_eq_iff)
next
  case (Cons e phrases)
  obtain p f where e: "e = (p, f)" by (cases e)
  let ?folders' = "AList.update fname (add_phrase F p f) folders"
  have look: "map_of ?folders' fname = Some (add_phrase F p f)"
    by (simp add: update_conv')
  show ?case
    using Cons.prems Cons.IH[OF look]
    by (auto simp add: e update_conv' fun_eq_iff)
qed

text \<open>A folder name that is not a key of the widget: nothing is added.\<close>

lemma add_phrases_to_folder_missing:
  "map_of folders fname = None \<Longrightarrow>
   add_phrases_to_folder folders (map (\<lambda>(p, f). (fname, p, f)) phrases) = folders"
  by (induction phrases) auto

lemma set_fold_add_phrase:
  "set (folder_phrases (fold (\<lambda>(p, f) G. add_phrase G p f) phrases F)) =
     set (folder_phrases F) \<union> set phrases"
  by (induction phrases arbitrary: F) (auto simp: add_phrase_def)

lemma get_current_tab_set_current_tab:
  "get_current_tab w = Some tab \<Longrightarrow> get_current_tab (set_current_tab w tab') = Some tab'"
  by (auto simp: get_current_tab_def set_current_tab_def widget_def tab_count_def
      split: if_splits)

lemma get_current_tab_cong:
  "phrase_tabs w' = phrase_tabs w \<Longrightarrow> get_current_tab w' = get_current_tab w"
  by (simp add: get_current_tab_def)

lemma moved_out_code:
  "[(p, f) \<leftarrow> source. py_strip (py_lower p) \<notin> (\<lambda>(q, g). py_strip (py_lower q)) ` set moved]
     = moved_out moved source"
  by (simp add: moved_out_def dedup_key_def case_prod_unfold)

lemma to_folder_add_local:
  assumes tab: "get_current_tab w = Some tab"
    and lst: "map_of (phrase_lists w) (tab_name tab) = Some pl"
    and folder: "map_of (folders_widget w) fname = Some F"
  shows "\<exists>w' tab' pl'.
     to_folder_add w (map (\<lambda>(p, f). (fname, p, f)) phrases) False = Inr w' \<and>
     get_current_tab w' = Some tab' \<and> tab_name tab' = tab_name tab \<and>
     table_history (table tab') = table_history (table tab) \<and>
     current_data (table tab') = current_data (table tab) \<and>
     map_of (phrase_lists w') (tab_name tab) = Some pl' \<and>
     pl_phrases pl' = pl_phrases pl \<and>
     pl_folders pl' = folders_widget w' \<and>
     map_of (folders_widget w') fname =
       Some (fold (\<lambda>(p, f) G. add_phrase G p f) phrases F)"
proof -
  let ?data = "map (\<lambda>(p, f). (fname, p, f)) phrases"
  let ?w1 = "w\<lparr>folders_widget := add_phrases_to_folder (folders_widget w) ?data\<rparr>"
  let ?tab' = "tab\<lparr>table := (table tab)\<lparr>table_folders := folders_widget ?w1\<rparr>\<rparr>"
  let ?w2 = "set_current_tab ?w1 ?tab'"
  have t1: "get_current_tab ?w1 = Some tab"
    using tab by (simp add: get_current_tab_def)
  have w2: "update_current_table_folders ?w1 = ?w2"
    using t1 by (simp add: update_current_table_folders_def)
  have t2: "get_current_tab ?w2 = Some ?tab'"
    using t1 by (rule get_current_tab_set_current_tab)
  have l2: "map_of (phrase_lists ?w2) (tab_name tab) = Some pl"
    using lst by (simp add: set_current_tab_def)
  have f2: "folders_widget ?w2 = add_phrases_to_folder (folders_widget w) ?data"
    by (simp add: set_current_tab_def)
  have g2: "get_current_phrase_list ?w2 = Inr (Some pl)"
    using t2 l2 by (simp add: get_current_phrase_list_def)
  have k2: "current_key ?w2 = tab_name tab"
    using t2 by (simp add: current_key_def)
  let ?w3 = "set_phrase_list ?w2 (tab_name tab) (pl\<lparr>pl_folders := folders_widget ?w2\<rparr>)"
  have run: "to_folder_add w ?data False = Inr ?w3"
    using g2 k2 w2 by (simp add: to_folder_add_def Let_def)
  have t3: "get_current_tab ?w3 = Some ?tab'"
    using t2 by (simp add: set_phrase_list_def get_current_tab_def)
  have l3: "map_of (phrase_lists ?w3) (tab_name tab) = Some (pl\<lparr>pl_folders := folders_widget ?w2\<rparr>)"
    by (simp add: set_phrase_list_def update_conv')
  have f3: "folders_widget ?w3 = folders_widget ?w2"
    by (simp add: set_phrase_list_def)
  have look: "map_of (folders_widget ?w3) fname =
       Some (fold (\<lambda>(p, f) G. add_phrase G p f) phrases F)"
    using add_phrases_to_folder_one_folder[OF folder, of phrases]
    by (simp add: set_phrase_list_def set_current_tab_def)
  show ?thesis
    using run t3 l3 f3 look by (intro exI conjI) (assumption | simp)+
qed


lemma get_current_tab_map_tabs:
  "get_current_tab w = Some tab \<Longrightarrow>
   get_current_tab (w\<lparr>phrase_tabs := (phrase_tabs w)\<lparr>tabs := map g (tabs (phrase_tabs w))\<rparr>\<rparr>)
     = Some (g tab)"
  by (auto simp: get_current_tab_def widget_def tab_count_def split: if_splits)

lemma to_folder_add_global:
  assumes tab: "get_current_tab w = Some tab"
    and lst: "map_of (phrase_lists w) (tab_name tab) = Some pl"
    and folder: "map_of (general_folders w) fname = Some F"
  shows "\<exists>w' tab'.
     to_folder_add w (map (\<lambda>(p, f). (fname, p, f)) phrases) True = Inr w' \<and>
     get_current_tab w' = Some tab' \<and> tab_name tab' = tab_name tab \<and>
     table_history (table tab') = table_history (table tab) \<and>
     current_data (table tab') = current_data (table tab) \<and>
     map_of (phrase_lists w') (tab_name tab) = Some pl \<and>
     global_folders w' = general_folders w' \<and>
     map_of (general_folders w') fname =
       Some (fold (\<lambda>(p, f) G. add_phrase G p f) phrases F)"
proof -
  let ?data = "map (\<lambda>(p, f). (fname, p, f)) phrases"
  let ?G = "add_phrases_to_folder (general_folders w) ?data"
  let ?g = "\<lambda>tab. tab\<lparr>table := (table tab)\<lparr>table_global_folders := ?G\<rparr>\<rparr>"
  let ?w' = "w\<lparr>general_folders := ?G, global_folders := ?G,
               phrase_tabs := (phrase_tabs w)\<lparr>tabs := map ?g (tabs (phrase_tabs w))\<rparr>\<rparr>"
  have run: "to_folder_add w ?data True = Inr ?w'"
    by (simp add: to_folder_add_def update_all_tables_global_folders_def Let_def)
  have t: "get_current_tab ?w' = Some (?g tab)"
    using get_current_tab_map_tabs[OF tab, of ?g] by (simp add: get_current_tab_def)
  have look: "map_of (general_folders ?w') fname =
       Some (fold (\<lambda>(p, f) G. add_phrase G p f) phrases F)"
    using add_phrases_to_folder_one_folder[OF folder, of phrases] by simp
  show ?thesis
    using run t lst look by (intro exI conjI) (assumption | simp)+
qed

lemma save_state_cursor:
  "- 1 \<le> current_index (table_history t) \<Longrightarrow> \<exists>h. save_state t = Inr (t\<lparr>table_history := h\<rparr>)"
  by (simp add: save_state_def add_state_cursor) (rule exI, rule refl)

lemma to_folder_move_current:
  assumes tab: "get_current_tab w = Some tab"
    and lst: "map_of (phrase_lists w) (tab_name tab) = Some pl"
    and hist: "- 1 \<le> current_index (table_history (table tab))"
  shows "\<exists>w' tab' pl'.
     to_folder_move w phrases = Inr w' \<and>
     get_current_tab w' = Some tab' \<and>
     current_data (table tab') = moved_out phrases (current_data (table tab)) \<and>
     map_of (phrase_lists w') (tab_name tab) = Some pl' \<and>
     pl_phrases pl' = moved_out phrases (current_data (table tab)) \<and>
     pl_folders pl' = folders_widget w \<and>
     folders_widget w' = folders_widget w \<and> general_folders w' = general_folders w \<and>
     global_folders w' = global_folders w"
proof -
  from save_state_cursor[OF hist] obtain h where
    sv: "save_state (table tab) = Inr ((table tab)\<lparr>table_history := h\<rparr>)" by blast
  define kept where "kept = moved_out phrases (current_data (table tab))"
  define t3 where "t3 = (table tab)\<lparr>table_history := h, current_data := kept\<rparr>"
  define tab' where "tab' = tab\<lparr>table := t3\<rparr>"
  define w1 where "w1 = set_current_tab w tab'"
  define w2 where "w2 = set_phrase_list w1 (tab_name tab) (pl\<lparr>pl_phrases := kept\<rparr>)"
  define pl' where "pl' = pl\<lparr>pl_stop_words := stop_words_widget w,
      pl_folders := folders_widget w, pl_phrases := kept, pl_history := h\<rparr>"
  define w3 where "w3 = set_phrase_list w2 (tab_name tab) pl'"
  have name: "tab_name tab' = tab_name tab" and tbl: "table tab' = t3"
    by (simp_all add: tab'_def)
  have t3f: "current_data t3 = kept" "table_history t3 = h"
    by (simp_all add: t3_def)
  have t1: "get_current_tab w1 = Some tab'"
    unfolding w1_def using tab by (rule get_current_tab_set_current_tab)
  have w1f: "phrase_lists w1 = phrase_lists w" "stop_words_widget w1 = stop_words_widget w"
    "folders_widget w1 = folders_widget w" "general_folders w1 = general_folders w"
    "global_folders w1 = global_folders w"
    by (simp_all add: w1_def set_current_tab_def)
  have g1: "get_current_phrase_list w1 = Inr (Some pl)"
    using t1 lst by (simp add: get_current_phrase_list_def w1f name)
  have k1: "current_key w1 = tab_name tab"
    using t1 by (simp add: current_key_def name)
  have t2: "get_current_tab w2 = Some tab'"
    using t1 by (simp add: w2_def set_phrase_list_def get_current_tab_def)
  have w2f: "stop_words_widget w2 = stop_words_widget w"
    "folders_widget w2 = folders_widget w" "general_folders w2 = general_folders w"
    "global_folders w2 = global_folders w"
    by (simp_all add: w2_def set_phrase_list_def w1f)
  have l2: "map_of (phrase_lists w2) (tab_name tab) = Some (pl\<lparr>pl_phrases := kept\<rparr>)"
    by (simp add: w2_def set_phrase_list_def update_conv')
  have s2: "sync_current_tab w2 = w3"
    by (simp add: sync_current_tab_def t2 name l2 tbl t3f w2f w3_def pl'_def
        set_phrase_list_def)
  have t3': "get_current_tab w3 = Some tab'"
    using t2 by (simp add: w3_def set_phrase_list_def get_current_tab_def)
  have l3: "map_of (phrase_lists w3) (tab_name tab) = Some pl'"
    by (simp add: w3_def set_phrase_list_def update_conv')
  have w3f: "stop_words_widget w3 = stop_words_widget w"
    "folders_widget w3 = folders_widget w" "general_folders w3 = general_folders w"
    "global_folders w3 = global_folders w"
    by (simp_all add: w3_def set_phrase_list_def w2f)
  have u2: "update_grouping_widget w2 = (None, w3)"
    by (simp add: update_grouping_widget_def s2 t3' l3 name)
  have pl'': "pl'\<lparr>pl_stop_words := stop_words_widget w, pl_folders := folders_widget w,
      pl_phrases := kept, pl_history := h\<rparr> = pl'"
    by (simp add: pl'_def)
  have s3: "sync_current_tab w3 = w3"
    by (simp add: sync_current_tab_def t3' name l3 tbl t3f w3f pl'')
       (simp add: w3_def set_phrase_list_def)
  have t3eq: "update_table (((table tab)\<lparr>table_history := h\<rparr>)\<lparr>current_data :=
        [(p, f) \<leftarrow> current_data ((table tab)\<lparr>table_history := h\<rparr>).
           py_strip (py_lower p) \<notin> (\<lambda>(p, f). py_strip (py_lower p)) ` set phrases]\<rparr>)
        (current_data (((table tab)\<lparr>table_history := h\<rparr>)\<lparr>current_data :=
        [(p, f) \<leftarrow> current_data ((table tab)\<lparr>table_history := h\<rparr>).
           py_strip (py_lower p) \<notin> (\<lambda>(p, f). py_strip (py_lower p)) ` set phrases]\<rparr>)) = t3"
    by (simp add: update_table_def moved_out_code t3_def kept_def)
  have run: "to_folder_move w phrases = Inr w3"
    unfolding to_folder_move_def Let_def tab sv option.case sum.case t3eq
      tab'_def[symmetric] w1_def[symmetric]
    by (simp add: g1 k1 t3f w2_def[symmetric] u2 update_global_grouping_def s3)
  show ?thesis
    using run t3' l3 w3f
    by (intro exI conjI) (assumption | simp add: tbl t3f pl'_def kept_def)+
qed


text \<open>
  C7. With a current tab that has its phrase list, and a target folder that exists in
  the scope chosen (the folder widget of the list, or the one of the global folders),
  \<^verbatim>\<open>on_phrases_to_folder\<close> returns without raising. The target folder, both in the
  widget and in the workspace (the folders of the list, or \<^verbatim>\<open>global_folders\<close>), is the
  old folder with every selected (text, frequency) pair added by \<^verbatim>\<open>add_phrase\<close>, so its
  members are the old members and the selected pairs. On a copy the source list (the
  data of the table and the phrases of the list) is unchanged. On a move both are the
  data of the table without every entry whose trimmed, lowercased text is that of a
  moved phrase.
\<close>

theorem on_phrases_to_folder_copy_move:
  assumes tab: "get_current_tab w = Some tab"
    and lst: "map_of (phrase_lists w) (tab_name tab) = Some pl"
    and folder:
      "map_of (if is_global then general_folders w else folders_widget w) fname = Some F"
    and hist: "- 1 \<le> current_index (table_history (table tab))"
  shows "\<exists>w' tab' pl' F'.
     on_phrases_to_folder w fname phrases is_global is_move = Inr w' \<and>
     get_current_tab w' = Some tab' \<and>
     map_of (phrase_lists w') (tab_name tab) = Some pl' \<and>
     map_of (if is_global then general_folders w' else folders_widget w') fname = Some F' \<and>
     (if is_global then global_folders w' = general_folders w'
      else pl_folders pl' = folders_widget w') \<and>
     F' = fold (\<lambda>(p, f) G. add_phrase G p f) phrases F \<and>
     set (folder_phrases F') = set (folder_phrases F) \<union> set phrases \<and>
     current_data (table tab') =
       (if is_move then moved_out phrases (current_data (table tab))
        else current_data (table tab)) \<and>
     pl_phrases pl' =
       (if is_move then moved_out phrases (current_data (table tab)) else pl_phrases pl)"
proof -
  let ?data = "map (\<lambda>(p, f). (fname, p, f)) phrases"
  let ?F' = "fold (\<lambda>(p, f) G. add_phrase G p f) phrases F"
  have added: "\<exists>w1 tab1 pl1.
     to_folder_add w ?data is_global = Inr w1 \<and>
     get_current_tab w1 = Some tab1 \<and> tab_name tab1 = tab_name tab \<and>
     table_history (table tab1) = table_history (table tab) \<and>
     current_data (table tab1) = current_data (table tab) \<and>
     map_of (phrase_lists w1) (tab_name tab) = Some pl1 \<and>
     pl_phrases pl1 = pl_phrases pl \<and>
     (if is_global then global_folders w1 = general_folders w1
      else pl_folders pl1 = folders_widget w1) \<and>
     map_of (if is_global then general_folders w1 else folders_widget w1) fname = Some ?F'"
  proof (cases is_global)
    case True
    with folder have "map_of (general_folders w) fname = Some F" by simp
    from to_folder_add_global[OF tab lst this, of phrases] True show ?thesis
      by (elim exE conjE) (intro exI conjI; (assumption | simp)?)
  next
    case False
    with folder have "map_of (folders_widget w) fname = Some F" by simp
    from to_folder_add_local[OF tab lst this, of phrases] False show ?thesis
      by (elim exE conjE) (intro exI conjI; (assumption | simp)?)
  qed
  then obtain w1 tab1 pl1 where
    run1: "to_folder_add w ?data is_global = Inr w1" and
    t1: "get_current_tab w1 = Some tab1" and n1: "tab_name tab1 = tab_name tab" and
    h1: "table_history (table tab1) = table_history (table tab)" and
    d1: "current_data (table tab1) = current_data (table tab)" and
    l1: "map_of (phrase_lists w1) (tab_name tab) = Some pl1" and
    p1: "pl_phrases pl1 = pl_phrases pl" and
    g1: "if is_global then global_folders w1 = general_folders w1
         else pl_folders pl1 = folders_widget w1" and
    f1: "map_of (if is_global then general_folders w1 else folders_widget w1) fname = Some ?F'"
    by blast
  have members: "set (folder_phrases ?F') = set (folder_phrases F) \<union> set phrases"
    by (rule set_fold_add_phrase)
  show ?thesis
  proof (cases is_move)
    case False
    then have "on_phrases_to_folder w fname phrases is_global is_move = Inr w1"
      using run1 by (simp add: on_phrases_to_folder_def)
    with t1 l1 f1 g1 members d1 p1 False show ?thesis
      by (intro exI conjI) (assumption | simp)+
  next
    case True
    have l1': "map_of (phrase_lists w1) (tab_name tab1) = Some pl1"
      using l1 n1 by simp
    have hist1: "- 1 \<le> current_index (table_history (table tab1))"
      using hist h1 by simp
    from to_folder_move_current[OF t1 l1' hist1, of phrases] obtain w2 tab2 pl2 where
      run2: "to_folder_move w1 phrases = Inr w2" and
      t2: "get_current_tab w2 = Some tab2" and
      d2: "current_data (table tab2) = moved_out phrases (current_data (table tab1))" and
      l2: "map_of (phrase_lists w2) (tab_name tab1) = Some pl2" and
      p2: "pl_phrases pl2 = moved_out phrases (current_data (table tab1))" and
      pf2: "pl_folders pl2 = folders_widget w1" and
      same: "folders_widget w2 = folders_widget w1" "general_folders w2 = general_folders w1"
        "global_folders w2 = global_folders w1"
      by blast
    have "on_phrases_to_folder w fname phrases is_global is_move = Inr w2"
      using run1 run2 True by (simp add: on_phrases_to_folder_def)
    moreover have "map_of (phrase_lists w2) (tab_name tab) = Some pl2"
      using l2 n1 by simp
    moreover have
      "map_of (if is_global then general_folders w2 else folders_widget w2) fname = Some ?F'"
      using f1 same by (cases is_global) simp_all
    moreover have "if is_global then global_folders w2 = general_folders w2
        else pl_folders pl2 = folders_widget w2"
      using g1 same pf2 by (cases is_global) simp_all
    ultimately show ?thesis
      using t2 members d2 p2 d1 True
      by (intro exI conjI) (assumption | simp)+
  qed
qed


theorem on_phrases_to_folder_copy_move_witness:
  "get_current_tab example_window = Some example_tab \<and>
   map_of (phrase_lists example_window) (tab_name example_tab)
     = Some (example_list\<lparr>pl_phrases := current_data example_table\<rparr>) \<and>
   map_of (folders_widget example_window) (str ''shoes'') = Some (Folder_init (str ''shoes'')) \<and>
   - 1 \<le> current_index (table_history (table example_tab)) \<and>
   (\<exists>w' tab' pl' F'.
      on_phrases_to_folder example_window (str ''shoes'') [(str ''buy shoes'', 10)] False True
        = Inr w' \<and>
      get_current_tab w' = Some tab' \<and>
      map_of (phrase_lists w') (str ''A'') = Some pl' \<and>
      map_of (folders_widget w') (str ''shoes'') = Some F' \<and>
      folder_phrases F' = [(str ''buy shoes'', 10)] \<and>
      current_data (table tab') = [(str ''red hat'', 3)] \<and>
      pl_phrases pl' = [(str ''red hat'', 3)])"
proof -
  have h1: "get_current_tab example_window = Some example_tab"
    by (simp add: example_window_def get_current_tab_def widget_def tab_count_def)
  have h2: "map_of (phrase_lists example_window) (tab_name example_tab)
     = Some (example_list\<lparr>pl_phrases := current_data example_table\<rparr>)"
    by (simp add: example_window_def example_tab_def)
  have h3: "map_of (if False then general_folders example_window
      else folders_widget example_window) (str ''shoes'') = Some (Folder_init (str ''shoes''))"
    by (simp add: example_window_def)
  have h4: "- 1 \<le> current_index (table_history (table example_tab))"
    by (simp add: example_tab_def example_table_def load_data_def update_table_def
        set_initial_state_def)
  have data: "current_data (table example_tab)
      = [(str ''Buy Shoes'', 10), (str ''red hat'', 3), (str '' buy shoes '', 7)]"
    by (simp add: example_tab_def example_table_def load_data_def update_table_def)
  have kept: "moved_out [(str ''buy shoes'', 10)] (current_data (table example_tab))
      = [(str ''red hat'', 3)]"
    unfolding data
    by (simp add: moved_out_def dedup_key_def py_lower_def str_def lower_cp_def py_strip_def
        py_isspace_def)
  have folder: "folder_phrases (add_phrase (Folder_init (str ''shoes'')) (str ''buy shoes'') 10)
      = [(str ''buy shoes'', 10)]"
    by (simp add: add_phrase_def Folder_init_def)
  have name: "tab_name example_tab = str ''A''"
    by (simp add: example_tab_def)
  from on_phrases_to_folder_copy_move [OF h1 h2 h3 h4, of "[(str ''buy shoes'', 10)]" True]
  obtain w' tab' pl' F' where
    "on_phrases_to_folder example_window (str ''shoes'') [(str ''buy shoes'', 10)] False True
        = Inr w'"
    "get_current_tab w' = Some tab'"
    "map_of (phrase_lists w') (str ''A'') = Some pl'"
    "map_of (folders_widget w') (str ''shoes'') = Some F'"
    "folder_phrases F' = [(str ''buy shoes'', 10)]"
    "current_data (table tab') = [(str ''red hat'', 3)]"
    "pl_phrases pl' = [(str ''red hat'', 3)]"
    unfolding kept name using folder by auto
  with h1 h2 h3 h4 show ?thesis
    by auto
qed

end
